theory Spec2Isabelle
  imports Complex_Main
begin

section \<open>JavaScript numbers\<close>

text \<open>
  The program computes with JavaScript numbers. They are modelled as exact reals:
  rounding errors of the double representation are outside the model. Counts and
  indices are naturals. \<open>Math.round\<close> rounds to the nearest integer, halves upwards.
\<close>

definition Math_round :: "real \<Rightarrow> real" where
  "Math_round x = of_int \<lfloor>x + 1 / 2\<rfloor>"

definition Math_floor :: "real \<Rightarrow> int" where
  "Math_floor x = \<lfloor>x\<rfloor>"

section \<open>Outlier test engine: scoring\<close>

text \<open>One entry of \<open>state.responses\<close>, as \<open>OutlierTestEngine.recordResponse\<close> pushes it.\<close>

record response =
  plateIndex :: nat
  plateType :: string
  difficulty :: string
  selectedIndex :: "nat option"
  correctIndex :: nat
  isCorrect :: bool
  responseTime :: real
  skipped :: bool
  timeout :: bool

record stats =
  correct :: nat
  total :: nat
  score :: real


datatype bucket = Bnone | Bmild | Bmoderate | Bstrong | Binconclusive

datatype confidence = Clow | Cmedium | Chigh

text \<open>
  The object \<open>OutlierTestEngine.calculateSeverity\<close> returns. The early return for a poor
  control score has no \<open>performanceGap\<close>, \<open>deutanScore\<close> and \<open>controlScore\<close>.
\<close>

record severity =
  sev_value :: real
  sev_bucket :: bucket
  sev_description :: string
  sev_confidence :: confidence
  performanceGap :: "real option"
  sev_deutanScore :: "real option"
  sev_controlScore :: "real option"

definition calculateSeverity :: "stats \<Rightarrow> stats \<Rightarrow> severity" where
  "calculateSeverity deutanStats controlStats =
     (if score controlStats < 50 then
        \<lparr>sev_value = 0, sev_bucket = Binconclusive,
         sev_description = ''Control plate performance was too low for reliable assessment'',
         sev_confidence = Clow,
         performanceGap = None, sev_deutanScore = None, sev_controlScore = None\<rparr>
      else
        let gap = score controlStats - score deutanStats;
            (bucket, val, description) =
              (if gap \<le> 10 \<and> score deutanStats \<ge> 70 then
                 (Bnone, 0,
                  ''No significant indicators of red-green color vision deficiency detected'')
               else if gap \<le> 25 \<or> score deutanStats \<ge> 60 then
                 (Bmild, 25, ''Mild indicators of red-green color confusion detected'')
               else if gap \<le> 45 \<or> score deutanStats \<ge> 40 then
                 (Bmoderate, 55,
                  ''Moderate indicators of red-green color vision deficiency detected'')
               else
                 (Bstrong, 85,
                  ''Strong indicators of red-green color vision deficiency detected''));
            conf =
              (if total controlStats \<ge> 5 \<and> score controlStats \<ge> 80 then Chigh
               else if total controlStats < 3 \<or> score controlStats < 60 then Clow
               else Cmedium)
        in \<lparr>sev_value = val, sev_bucket = bucket, sev_description = description,
            sev_confidence = conf, performanceGap = Some gap,
            sev_deutanScore = Some (score deutanStats),
            sev_controlScore = Some (score controlStats)\<rparr>)"



section \<open>Test engine: severity estimate\<close>

record estimate =
  est_value :: real
  est_bucket :: bucket
  est_deutanScore :: real
  est_controlScore :: real
  est_description :: string

definition getSeverityDescription :: "bucket \<Rightarrow> string" where
  "getSeverityDescription b =
     (case b of
        Bmild \<Rightarrow> ''Mild red-green color confusion detected. You may have subtle difficulty distinguishing some shades of red and green.''
      | Bmoderate \<Rightarrow> ''Moderate red-green color confusion detected. You likely have deuteranomaly, a common form of color vision deficiency.''
      | Bstrong \<Rightarrow> ''Strong red-green color confusion detected. You may have deuteranopia or strong deuteranomaly, significantly affecting red-green color perception.''
      | _ \<Rightarrow> ''No significant red-green color confusion detected. Your color vision appears normal for the tested range.'')"

text \<open>\<open>adjustedScore\<close> and \<open>severityValue\<close> are the locals of \<open>TestEngine.estimateSeverity\<close>.\<close>

definition adjustedScore :: "real \<Rightarrow> real \<Rightarrow> real" where
  "adjustedScore deutanScore controlScore =
     (if controlScore < 100 \<and> controlScore > 0
      then min ((deutanScore / controlScore) * 100) 100
      else deutanScore)"

definition severityValue :: "real \<Rightarrow> real \<Rightarrow> real" where
  "severityValue deutanScore controlScore = 100 - adjustedScore deutanScore controlScore"

definition estimateSeverity :: "real \<Rightarrow> real \<Rightarrow> estimate" where
  "estimateSeverity deutanScore controlScore =
     (let sv = severityValue deutanScore controlScore;
          bucket =
            (if sv \<le> 15 then Bnone
             else if sv \<le> 35 then Bmild
             else if sv \<le> 60 then Bmoderate
             else Bstrong)
      in \<lparr>est_value = Math_round sv, est_bucket = bucket,
          est_deutanScore = deutanScore, est_controlScore = controlScore,
          est_description = getSeverityDescription bucket\<rparr>)"


text \<open>The rank order none < mild < moderate < strong of the four diagnostic buckets.\<close>

fun rank :: "bucket \<Rightarrow> nat option" where
  "rank Bnone = Some 0"
| "rank Bmild = Some 1"
| "rank Bmoderate = Some 2"
| "rank Bstrong = Some 3"
| "rank Binconclusive = None"




section \<open>Color filter\<close>

text \<open>
  Modelled from the spec: \<open>Utils.clamp(value, min, max)\<close> is in \<open>js/utils.js\<close>, which
  is not among the sources. The specification says that it clamps a value into
  \<open>[min, max]\<close>.
\<close>

definition clamp :: "real \<Rightarrow> real \<Rightarrow> real \<Rightarrow> real" where
  "clamp v lo hi = min (max v lo) hi"

text \<open>The remainder operator \<open>%\<close> of JavaScript: the quotient is truncated towards zero.\<close>

definition js_rem :: "real \<Rightarrow> real \<Rightarrow> real" where
  "js_rem x y =
     x - y * of_int (if 0 \<le> x / y then \<lfloor>x / y\<rfloor> else \<lceil>x / y\<rceil>)"

text \<open>A filter parameter object with its five named values.\<close>

record FilterParameters =
  hueShift :: real
  intensity :: real
  saturationBoost :: real
  brightness :: real
  contrast :: real

datatype param = HueShift | Intensity | SaturationBoost | Brightness | Contrast

text \<open>The property name of each parameter, \<open>params[param]\<close> and \<open>{...params, [param]: v}\<close>.\<close>

fun key_name :: "param \<Rightarrow> string" where
  "key_name HueShift = ''hueShift''"
| "key_name Intensity = ''intensity''"
| "key_name SaturationBoost = ''saturationBoost''"
| "key_name Brightness = ''brightness''"
| "key_name Contrast = ''contrast''"

fun get_param :: "FilterParameters \<Rightarrow> param \<Rightarrow> real" where
  "get_param ps HueShift = hueShift ps"
| "get_param ps Intensity = intensity ps"
| "get_param ps SaturationBoost = saturationBoost ps"
| "get_param ps Brightness = brightness ps"
| "get_param ps Contrast = contrast ps"

fun set_param :: "FilterParameters \<Rightarrow> param \<Rightarrow> real \<Rightarrow> FilterParameters" where
  "set_param ps HueShift v = ps\<lparr>hueShift := v\<rparr>"
| "set_param ps Intensity v = ps\<lparr>intensity := v\<rparr>"
| "set_param ps SaturationBoost v = ps\<lparr>saturationBoost := v\<rparr>"
| "set_param ps Brightness v = ps\<lparr>brightness := v\<rparr>"
| "set_param ps Contrast v = ps\<lparr>contrast := v\<rparr>"

definition to_object :: "FilterParameters \<Rightarrow> (string \<rightharpoonup> real)" where
  "to_object ps =
     [''hueShift'' \<mapsto> hueShift ps, ''intensity'' \<mapsto> intensity ps,
      ''saturationBoost'' \<mapsto> saturationBoost ps, ''brightness'' \<mapsto> brightness ps,
      ''contrast'' \<mapsto> contrast ps]"

definition defaults :: FilterParameters where
  "defaults =
     \<lparr>hueShift = 0, intensity = 1 / 2, saturationBoost = 0, brightness = 0, contrast = 0\<rparr>"

definition preset_none :: FilterParameters where
  "preset_none =
     \<lparr>hueShift = 0, intensity = 0, saturationBoost = 0, brightness = 0, contrast = 0\<rparr>"

definition preset_mild :: FilterParameters where
  "preset_mild =
     \<lparr>hueShift = 15, intensity = 3 / 10, saturationBoost = 10, brightness = 0, contrast = 5\<rparr>"

definition preset_moderate :: FilterParameters where
  "preset_moderate =
     \<lparr>hueShift = 25, intensity = 1 / 2, saturationBoost = 15, brightness = 0, contrast = 8\<rparr>"

definition preset_strong :: FilterParameters where
  "preset_strong =
     \<lparr>hueShift = 40, intensity = 7 / 10, saturationBoost = 20, brightness = 0, contrast = 10\<rparr>"

definition presets :: "string \<rightharpoonup> FilterParameters" where
  "presets =
     [''none'' \<mapsto> preset_none, ''mild'' \<mapsto> preset_mild,
      ''moderate'' \<mapsto> preset_moderate, ''strong'' \<mapsto> preset_strong]"

record range =
  rmin :: real
  rmax :: real
  rstep :: real

fun paramRanges :: "param \<Rightarrow> range" where
  "paramRanges HueShift = \<lparr>rmin = -60, rmax = 60, rstep = 5\<rparr>"
| "paramRanges Intensity = \<lparr>rmin = 0, rmax = 1, rstep = 1 / 10\<rparr>"
| "paramRanges SaturationBoost = \<lparr>rmin = -20, rmax = 40, rstep = 5\<rparr>"
| "paramRanges Brightness = \<lparr>rmin = -20, rmax = 20, rstep = 5\<rparr>"
| "paramRanges Contrast = \<lparr>rmin = -20, rmax = 20, rstep = 5\<rparr>"

text \<open>\<open>Object.keys(paramRanges)\<close>, in the order of the object literal.\<close>

definition param_keys :: "param list" where
  "param_keys = [HueShift, Intensity, SaturationBoost, Brightness, Contrast]"

definition getInitialParams :: "string \<Rightarrow> FilterParameters" where
  "getInitialParams severity =
     (case presets severity of Some preset \<Rightarrow> preset | None \<Rightarrow> preset_moderate)"


text \<open>
  The sub-steps of \<open>ColorFilter.applyToRGB\<close>, in the order of the source: the hue shift
  and the saturation boost on the HSL triple, then brightness and contrast on the RGB
  triple, each of the last two under its guard \<open>!== 0\<close>.
\<close>

type_synonym triple = "real \<times> real \<times> real"






text \<open>\<open>ColorFilter.generateNeighbors\<close>: per parameter a lower and a higher variant.\<close>

definition round2 :: "real \<Rightarrow> real" where
  "round2 x = Math_round (x * 100) / 100"

definition neighbors_of :: "FilterParameters \<Rightarrow> real \<Rightarrow> param \<Rightarrow> FilterParameters list" where
  "neighbors_of params stepMultiplier p =
     (let rg = paramRanges p;
          step = rstep rg * stepMultiplier
      in (if get_param params p - step \<ge> rmin rg
          then [set_param params p (round2 (get_param params p - step))] else []) @
         (if get_param params p + step \<le> rmax rg
          then [set_param params p (round2 (get_param params p + step))] else []))"

definition generateNeighbors :: "FilterParameters \<Rightarrow> real \<Rightarrow> FilterParameters list" where
  "generateNeighbors params stepMultiplier =
     concat (map (neighbors_of params stepMultiplier) param_keys)"

text \<open>\<open>ColorFilter.similarity\<close>.\<close>

definition similarity :: "FilterParameters \<Rightarrow> FilterParameters \<Rightarrow> real" where
  "similarity params1 params2 =
     (let totalDiff =
        foldl (\<lambda>acc p.
                 acc + \<bar>get_param params1 p - get_param params2 p\<bar>
                       / (rmax (paramRanges p) - rmin (paramRanges p)))
              0 param_keys
      in 1 - totalDiff / real (length param_keys))"

text \<open>
  \<open>ColorFilter.normalizeParams\<close>. The argument is an arbitrary object with numeric
  values, a map from property names to numbers; the result starts as a copy of
  \<open>defaults\<close> and only the five keys of \<open>paramRanges\<close> are ever assigned, so it is a
  parameter record.
\<close>

definition normalizeParams :: "(string \<rightharpoonup> real) \<Rightarrow> FilterParameters" where
  "normalizeParams params =
     foldl (\<lambda>normalized p.
              case params (key_name p) of
                None \<Rightarrow> normalized
              | Some v \<Rightarrow>
                  set_param normalized p
                    (clamp v (rmin (paramRanges p)) (rmax (paramRanges p))))
           defaults param_keys"

text \<open>A parameter record all of whose values lie in their declared ranges.\<close>

definition in_ranges :: "FilterParameters \<Rightarrow> bool" where
  "in_ranges ps =
     list_all (\<lambda>p. rmin (paramRanges p) \<le> get_param ps p \<and> get_param ps p \<le> rmax (paramRanges p))
       param_keys"

text \<open>
  The two candidates \<open>generateNeighbors\<close> may emit for a parameter, and the conditions under
  which it emits them.
\<close>

definition lower_ok :: "FilterParameters \<Rightarrow> real \<Rightarrow> param \<Rightarrow> bool" where
  "lower_ok params m p \<longleftrightarrow>
     get_param params p - rstep (paramRanges p) * m \<ge> rmin (paramRanges p)"

definition upper_ok :: "FilterParameters \<Rightarrow> real \<Rightarrow> param \<Rightarrow> bool" where
  "upper_ok params m p \<longleftrightarrow>
     get_param params p + rstep (paramRanges p) * m \<le> rmax (paramRanges p)"

definition lower_variant :: "FilterParameters \<Rightarrow> real \<Rightarrow> param \<Rightarrow> FilterParameters" where
  "lower_variant params m p =
     set_param params p (round2 (get_param params p - rstep (paramRanges p) * m))"

definition upper_variant :: "FilterParameters \<Rightarrow> real \<Rightarrow> param \<Rightarrow> FilterParameters" where
  "upper_variant params m p =
     set_param params p (round2 (get_param params p + rstep (paramRanges p) * m))"


text \<open>
  The usual conversion between RGB (0 to 255) and HSL (degrees and percentages), on exact
  reals. It stands in for the two conversions of \<open>js/utils.js\<close> where a concrete pair is
  needed to run \<open>applyToRGB\<close> on an example.
\<close>

definition hue2rgb :: "real \<Rightarrow> real \<Rightarrow> real \<Rightarrow> real" where
  "hue2rgb p q t0 =
     (let t = (if t0 < 0 then t0 + 1 else if t0 > 1 then t0 - 1 else t0) in
      if t < 1 / 6 then p + (q - p) * 6 * t
      else if t < 1 / 2 then q
      else if t < 2 / 3 then p + (q - p) * (2 / 3 - t) * 6
      else p)"

definition std_hslToRgb :: "triple \<Rightarrow> triple" where
  "std_hslToRgb hsl =
     (case hsl of (h0, s0, l0) \<Rightarrow>
        let h = h0 / 360; s = s0 / 100; l = l0 / 100 in
        if s = 0 then (l * 255, l * 255, l * 255)
        else
          let q = (if l < 1 / 2 then l * (1 + s) else l + s - l * s);
              p = 2 * l - q
          in (hue2rgb p q (h + 1 / 3) * 255, hue2rgb p q h * 255,
              hue2rgb p q (h - 1 / 3) * 255))"



section \<open>Mosaic plates\<close>

text \<open>
  The data of a plate as \<open>MosaicGenerator.generatePlate\<close> builds it: colors in HSL, a
  palette with background and target colors, the target descriptor and the tiles.
\<close>

record hsl =
  hsl_h :: real
  hsl_s :: real
  hsl_l :: real

record mpalette =
  mp_background :: "hsl list"
  mp_target :: "hsl list"

record target =
  tg_type :: string
  tg_value :: string

record tile =
  tl_row :: nat
  tl_col :: nat
  tl_x :: int
  tl_y :: int
  tl_size :: int
  tl_isTarget :: bool
  tl_color :: string
  tl_rgb :: triple

record plateData =
  pd_seed :: string
  pd_size :: real
  pd_tileCount :: nat
  pd_tileSize :: int
  pd_type :: string
  pd_difficulty :: string
  pd_palette :: mpalette
  pd_target :: target
  pd_filterParams :: "FilterParameters option"
  pd_tiles :: "tile list"

section \<open>Errors and random numbers\<close>

text \<open>
  The failures of the specification's taxonomy, and \<open>TypeError\<close> for a property read on
  \<open>undefined\<close>. A raise of the program is the \<open>Inl\<close> of a sum.
\<close>

datatype error = InvalidArgument | InvalidState | TypeError

text \<open>
  A random number generator is the sequence of the numbers it will return: a call
  returns the head and leaves the tail. \<open>Math.random\<close> and the generators that
  \<open>Utils.createRNG\<close> makes from a seed are such sequences.
\<close>

type_synonym rng = "nat \<Rightarrow> real"

definition rng_next :: "rng \<Rightarrow> real \<times> rng" where
  "rng_next r = (r 0, \<lambda>i. r (Suc i))"

text \<open>The contract of a generator: every number lies in \<open>[0, 1)\<close>.\<close>

definition unit_rng :: "rng \<Rightarrow> bool" where
  "unit_rng r \<longleftrightarrow> (\<forall>i. 0 \<le> r i \<and> r i < 1)"

text \<open>
  Modelled from the spec: \<open>Utils.randomPick(list, rng)\<close> is in \<open>js/utils.js\<close>, which is
  not among the sources. The specification has \<open>pick(list, generator) -> element\<close>, with
  an empty list a contract violation that fails with InvalidArgument. The element is
  the one at index \<open>floor(rng() * length)\<close>; an index outside the list, which needs a
  number outside \<open>[0, 1)\<close>, fails in the same way.
\<close>

definition randomPick :: "'a list \<Rightarrow> rng \<Rightarrow> error + ('a \<times> rng)" where
  "randomPick xs r =
     (case rng_next r of (u, r') \<Rightarrow>
        let i = Math_floor (u * real (length xs)) in
        if 0 \<le> i \<and> nat i < length xs then Inr (xs ! nat i, r') else Inl InvalidArgument)"

text \<open>
  Modelled from the spec: \<open>Utils.percentage(correct, total)\<close> is in \<open>js/utils.js\<close>, which
  is not among the sources. The specification has
  \<open>percentage = round(100 * correct / total)\<close>, defined as 0 when \<open>total\<close> is 0.
\<close>

definition percentage :: "nat \<Rightarrow> nat \<Rightarrow> real" where
  "percentage c t = (if t = 0 then 0 else Math_round (100 * real c / real t))"

section \<open>Test engine\<close>

text \<open>
  The state object of \<open>TestEngine\<close> and the entries of its response log. Wall-clock
  fields (\<open>startTime\<close>, \<open>plateStartTime\<close>, \<open>responseTime\<close>) and the callbacks of the user
  interface are left out. A response is a string, or \<open>None\<close> for \<open>null\<close> and
  \<open>undefined\<close>.
\<close>

record te_response =
  te_plateIndex :: nat
  te_plateType :: string
  te_targetType :: string
  te_targetValue :: string
  te_userResponse :: "string option"
  te_isCorrect :: bool
  te_difficulty :: string
  te_seed :: string

record te_state =
  te_isRunning :: bool
  te_currentPlateIndex :: nat
  te_plates :: "plateData list"
  te_responses :: "te_response list"
  te_filterParams :: "FilterParameters option"
  te_mode :: string
  te_stateSeed :: string

record te_config =
  te_baselinePlateCount :: nat
  te_validationPlateCount :: nat
  te_tuningPlateCount :: nat
  te_configDifficulty :: string

definition te_default_config :: te_config where
  "te_default_config =
     \<lparr>te_baselinePlateCount = 12, te_validationPlateCount = 8, te_tuningPlateCount = 5,
      te_configDifficulty = ''medium''\<rparr>"

record te_options =
  teo_mode :: "string option"
  teo_plateCount :: "nat option"
  teo_filterParams :: "FilterParameters option"

text \<open>
  \<open>TestEngine.init\<close>. The plate sequence comes from
  \<open>MosaicGenerator.generateTuningSequence\<close> in tuning mode and from
  \<open>MosaicGenerator.generateTestSequence\<close> otherwise; both rest on \<open>Utils.shuffleArray\<close>
  and \<open>Utils.generateSeed\<close> of \<open>js/utils.js\<close>, so the sequence generator is the
  parameter \<open>generateFn\<close>, given the mode flag, the plate count, the difficulty, the
  filter parameters and the seed. The fresh seed \<open>Utils.generateSeed()\<close> is the
  parameter \<open>freshSeed\<close>.
\<close>

type_synonym sequence_generator =
  "bool \<Rightarrow> nat \<Rightarrow> string \<Rightarrow> FilterParameters option \<Rightarrow> string \<Rightarrow> plateData list"

definition te_init ::
  "sequence_generator \<Rightarrow> string \<Rightarrow> te_config \<Rightarrow> te_options \<Rightarrow> te_state"
where
  "te_init generateFn freshSeed config options =
     (let mode = (case teo_mode options of Some m \<Rightarrow> m | None \<Rightarrow> ''baseline'');
          count =
            (case teo_plateCount options of
               Some (Suc n) \<Rightarrow> Suc n
             | _ \<Rightarrow>
                 if mode = ''baseline'' then te_baselinePlateCount config
                 else if mode = ''validation'' then te_validationPlateCount config
                 else if mode = ''tuning'' then te_tuningPlateCount config
                 else te_baselinePlateCount config)
      in \<lparr>te_isRunning = False, te_currentPlateIndex = 0,
          te_plates =
            generateFn (mode = ''tuning'') count (te_configDifficulty config)
              (teo_filterParams options) freshSeed,
          te_responses = [], te_filterParams = teo_filterParams options, te_mode = mode,
          te_stateSeed = freshSeed\<rparr>)"

text \<open>\<open>String.prototype.toLowerCase\<close> and \<open>trim\<close>, on ASCII strings.\<close>

definition toLowerCase :: "string \<Rightarrow> string" where
  "toLowerCase str =
     map (\<lambda>c. let n = (of_char c :: nat) in
               if 65 \<le> n \<and> n \<le> 90 then char_of (n + 32) else c) str"

definition is_space :: "char \<Rightarrow> bool" where
  "is_space c \<longleftrightarrow> (of_char c :: nat) \<in> {9, 10, 11, 12, 13, 32}"

definition trim :: "string \<Rightarrow> string" where
  "trim str = rev (dropWhile is_space (rev (dropWhile is_space str)))"

definition checkAnswer :: "string option \<Rightarrow> plateData \<Rightarrow> bool" where
  "checkAnswer response plate =
     (case response of
        None \<Rightarrow> False
      | Some r \<Rightarrow>
          if r = ''none'' then False
          else trim (toLowerCase r) = trim (toLowerCase (tg_value (pd_target plate))))"

text \<open>\<open>TestEngine.complete\<close>: the state change; the results go to the callback.\<close>

definition te_complete :: "te_state \<Rightarrow> te_state" where
  "te_complete st = st\<lparr>te_isRunning := False\<rparr>"

text \<open>\<open>TestEngine.showCurrentPlate\<close>: completes the test when there is no current plate.\<close>

definition te_showCurrentPlate :: "te_state \<Rightarrow> te_state" where
  "te_showCurrentPlate st =
     (if te_currentPlateIndex st < length (te_plates st) then st else te_complete st)"

definition te_start :: "te_state \<Rightarrow> te_state" where
  "te_start st =
     (if te_isRunning st then st
      else te_showCurrentPlate
             (st\<lparr>te_isRunning := True, te_currentPlateIndex := 0, te_responses := []\<rparr>))"

text \<open>
  \<open>TestEngine.recordResponse\<close>. It has no raise: without a current plate it returns at
  once, and otherwise it logs the response and moves on.
\<close>

definition te_recordResponse :: "string option \<Rightarrow> te_state \<Rightarrow> error + te_state" where
  "te_recordResponse response st =
     (if \<not> te_currentPlateIndex st < length (te_plates st) then Inr st
      else
        let plate = te_plates st ! te_currentPlateIndex st;
            responseData =
              \<lparr>te_plateIndex = te_currentPlateIndex st, te_plateType = pd_type plate,
               te_targetType = tg_type (pd_target plate),
               te_targetValue = tg_value (pd_target plate),
               te_userResponse = response, te_isCorrect = checkAnswer response plate,
               te_difficulty = pd_difficulty plate, te_seed = pd_seed plate\<rparr>;
            st1 = st\<lparr>te_responses := te_responses st @ [responseData],
                     te_currentPlateIndex := te_currentPlateIndex st + 1\<rparr>
        in if te_currentPlateIndex st1 \<ge> length (te_plates st1)
           then Inr (te_complete st1)
           else Inr (te_showCurrentPlate st1))"

definition te_skipPlate :: "te_state \<Rightarrow> error + te_state" where
  "te_skipPlate st = te_recordResponse (Some ''none'') st"



section \<open>Tuning engine\<close>

text \<open>
  The state object of \<open>TuningEngine\<close> after \<open>init\<close>, the entries of the round history and
  the configuration. Wall-clock fields and the callbacks of the user interface are left
  out.
\<close>

record tu_response =
  tu_plateIndex :: nat
  tu_plateType :: string
  tu_targetValue :: string
  tu_userResponse :: string
  tu_isCorrect :: bool

record roundResult =
  rr_round :: nat
  rr_params :: FilterParameters
  rr_score :: real
  rr_correct :: nat
  rr_total :: nat
  rr_responses :: "tu_response list"

record tu_state =
  tu_isRunning :: bool
  currentRound :: nat
  maxRounds :: nat
  currentParams :: FilterParameters
  bestParams :: FilterParameters
  bestScore :: real
  baselineScore :: real
  history :: "roundResult list"
  noImprovementCount :: nat
  tu_plateIndexS :: nat
  currentPlates :: "plateData list"
  plateResponses :: "tu_response list"

record tu_config =
  cfg_maxRounds :: nat
  cfg_platesPerRound :: nat
  cfg_improvementThreshold :: real
  cfg_maxNoImprovement :: nat

definition tu_default_config :: tu_config where
  "tu_default_config =
     \<lparr>cfg_maxRounds = 5, cfg_platesPerRound = 5, cfg_improvementThreshold = 5,
      cfg_maxNoImprovement = 2\<rparr>"

record tu_options =
  tuo_baselineSeverity :: "string option"
  tuo_baselineScore :: "real option"

definition tu_init :: "tu_config \<Rightarrow> tu_options \<Rightarrow> tu_state" where
  "tu_init config options =
     (let baselineSeverity =
            (case tuo_baselineSeverity options of Some b \<Rightarrow> b | None \<Rightarrow> ''moderate'');
          baselineScore = (case tuo_baselineScore options of Some b \<Rightarrow> b | None \<Rightarrow> 50);
          initialParams = getInitialParams baselineSeverity
      in \<lparr>tu_isRunning = False, currentRound = 0, maxRounds = cfg_maxRounds config,
          currentParams = initialParams, bestParams = initialParams,
          bestScore = baselineScore, baselineScore = baselineScore, history = [],
          noImprovementCount = 0, tu_plateIndexS = 0, currentPlates = [],
          plateResponses = []\<rparr>)"

text \<open>
  \<open>MosaicGenerator.generateTuningSequence\<close> rests on \<open>Utils.shuffleArray\<close> and
  \<open>Utils.generateSeed\<close> of \<open>js/utils.js\<close>, which is not among the sources: the plate
  sequence of a round is the parameter \<open>gen\<close>, given the plate count, the filter
  parameters and the round number of the seed \<open>round-n\<close>. It may return any list, also
  an empty one.
\<close>

type_synonym tuning_generator = "nat \<Rightarrow> FilterParameters \<Rightarrow> nat \<Rightarrow> plateData list"

definition shouldContinue :: "tu_config \<Rightarrow> tu_state \<Rightarrow> bool" where
  "shouldContinue config st =
     (if currentRound st \<ge> maxRounds st then False
      else if bestScore st \<ge> 100 then False
      else if noImprovementCount st \<ge> cfg_maxNoImprovement config then False
      else True)"

text \<open>
  \<open>TuningEngine.exploreNewDirection\<close> draws from \<open>Math.random\<close>, one number per
  parameter.
\<close>

definition exploreNewDirection :: "FilterParameters \<Rightarrow> rng \<Rightarrow> FilterParameters \<times> rng" where
  "exploreNewDirection baseParams rnd =
     foldl (\<lambda>(newParams, r) p.
              case rng_next r of (u, r') \<Rightarrow>
                let rg = paramRanges p;
                    perturbation = (u - 1 / 2) * rstep rg * 2
                in (set_param newParams p
                      (clamp (get_param newParams p + perturbation) (rmin rg) (rmax rg)),
                    r'))
           (baseParams, rnd) param_keys"

text \<open>
  \<open>TuningEngine.adjustParameters\<close>. \<open>Utils.randomPick\<close> is called without a generator
  and draws from \<open>Math.random\<close>, the sequence \<open>rnd\<close>. Reading \<open>score\<close> of the last round of
  an empty history is a \<open>TypeError\<close>. The candidates not yet explored are those whose
  similarity to every round of the history is at most the threshold.
\<close>

definition unexplored_of ::
  "roundResult list \<Rightarrow> real \<Rightarrow> FilterParameters list \<Rightarrow> FilterParameters list" where
  "unexplored_of hist threshold neighbors =
     filter (\<lambda>n. \<not> list_ex (\<lambda>h. similarity (rr_params h) n > threshold) hist) neighbors"

definition adjustParameters :: "rng \<Rightarrow> tu_state \<Rightarrow> error + (tu_state \<times> rng)" where
  "adjustParameters rnd st =
     (case history st of
        [] \<Rightarrow> Inl TypeError
      | _ # _ \<Rightarrow>
          let lastRound = last (history st);
              chosen =
                (if rr_score lastRound < bestScore st then
                   let neighbors = generateNeighbors (bestParams st) 1;
                       unexplored = unexplored_of (history st) (95 / 100) neighbors
                   in if length unexplored > 0 then randomPick unexplored rnd
                      else randomPick (generateNeighbors (bestParams st) (1 / 2)) rnd
                 else
                   let neighbors = generateNeighbors (currentParams st) 1;
                       unexplored = unexplored_of (history st) (9 / 10) neighbors
                   in if length unexplored > 0 then randomPick unexplored rnd
                      else Inr (exploreNewDirection (currentParams st) rnd))
          in case chosen of
               Inl e \<Rightarrow> Inl e
             | Inr (ps, rnd') \<Rightarrow>
                 Inr (st\<lparr>currentParams := normalizeParams (to_object ps)\<rparr>, rnd'))"

definition tu_complete :: "tu_state \<Rightarrow> tu_state" where
  "tu_complete st = st\<lparr>tu_isRunning := False\<rparr>"

text \<open>
  \<open>TuningEngine.completeRound\<close> up to its decision: the round is scored and appended to
  the history, and the best score, the best parameters and the count of rounds without
  improvement are updated.
\<close>

definition scoreRound :: "tu_state \<Rightarrow> tu_state" where
  "scoreRound st =
     (let correct = length (filter tu_isCorrect (plateResponses st));
          total = length (plateResponses st);
          score = percentage correct total;
          roundResult =
            \<lparr>rr_round = currentRound st, rr_params = currentParams st, rr_score = score,
             rr_correct = correct, rr_total = total, rr_responses = plateResponses st\<rparr>;
          st1 = st\<lparr>history := history st @ [roundResult]\<rparr>
      in if score > bestScore st1
         then st1\<lparr>bestScore := score, bestParams := currentParams st1,
                  noImprovementCount := 0\<rparr>
         else st1\<lparr>noImprovementCount := noImprovementCount st1 + 1\<rparr>)"

text \<open>The assignments of \<open>TuningEngine.startRound\<close> before it shows the first plate.\<close>

definition enterRound :: "tuning_generator \<Rightarrow> tu_config \<Rightarrow> tu_state \<Rightarrow> tu_state" where
  "enterRound gen config st =
     st\<lparr>currentRound := currentRound st + 1, tu_plateIndexS := 0, plateResponses := [],
        currentPlates :=
          gen (cfg_platesPerRound config) (currentParams st) (currentRound st + 1)\<rparr>"

text \<open>
  \<open>startRound\<close>, \<open>showCurrentPlate\<close> and \<open>completeRound\<close> call each other: a round without
  plates is completed at once, and a completed round starts the next one unless
  \<open>shouldContinue\<close> is false. The recursion ends because a new round is started only
  below \<open>maxRounds\<close> and raises \<open>currentRound\<close>.
\<close>

function startRound ::
    "tuning_generator \<Rightarrow> tu_config \<Rightarrow> rng \<Rightarrow> tu_state \<Rightarrow> error + (tu_state \<times> rng)"
  and showCurrentPlate ::
    "tuning_generator \<Rightarrow> tu_config \<Rightarrow> rng \<Rightarrow> tu_state \<Rightarrow> error + (tu_state \<times> rng)"
  and completeRound ::
    "tuning_generator \<Rightarrow> tu_config \<Rightarrow> rng \<Rightarrow> tu_state \<Rightarrow> error + (tu_state \<times> rng)"
where
  "startRound gen config rnd st = showCurrentPlate gen config rnd (enterRound gen config st)"
| "showCurrentPlate gen config rnd st =
     (if tu_plateIndexS st < length (currentPlates st) then Inr (st, rnd)
      else completeRound gen config rnd st)"
| "completeRound gen config rnd st =
     (if shouldContinue config (scoreRound st) then
        (case adjustParameters rnd (scoreRound st) of
           Inl e \<Rightarrow> Inl e
         | Inr (st', rnd') \<Rightarrow> startRound gen config rnd' st')
      else Inr (tu_complete (scoreRound st), rnd))"
  by pat_completeness auto
termination
proof (relation "measure (\<lambda>x. case x of
    Inl (gen, config, rnd, st) \<Rightarrow> 3 * (maxRounds st - (currentRound st + 1)) + 2
  | Inr (Inl (gen, config, rnd, st)) \<Rightarrow> 3 * (maxRounds st - currentRound st) + 1
  | Inr (Inr (gen, config, rnd, st)) \<Rightarrow> 3 * (maxRounds st - currentRound st))")
  show "wf (measure (\<lambda>x. case x of
    Inl (gen, config, rnd, st) \<Rightarrow> 3 * (maxRounds st - (currentRound st + 1)) + 2
  | Inr (Inl (gen, config, rnd, st)) \<Rightarrow> 3 * (maxRounds st - currentRound st) + 1
  | Inr (Inr (gen, config, rnd, st)) \<Rightarrow> 3 * (maxRounds st - currentRound st)))"
    by simp
next
  fix gen config rnd st
  show "(Inr (Inl (gen, config, rnd, enterRound gen config st)), Inl (gen, config, rnd, st))
          \<in> measure (\<lambda>x. case x of
    Inl (gen, config, rnd, st) \<Rightarrow> 3 * (maxRounds st - (currentRound st + 1)) + 2
  | Inr (Inl (gen, config, rnd, st)) \<Rightarrow> 3 * (maxRounds st - currentRound st) + 1
  | Inr (Inr (gen, config, rnd, st)) \<Rightarrow> 3 * (maxRounds st - currentRound st))"
    by (simp add: enterRound_def)
next
  fix gen config rnd st
  show "(Inr (Inr (gen, config, rnd, st)), Inr (Inl (gen, config, rnd, st)))
          \<in> measure (\<lambda>x. case x of
    Inl (gen, config, rnd, st) \<Rightarrow> 3 * (maxRounds st - (currentRound st + 1)) + 2
  | Inr (Inl (gen, config, rnd, st)) \<Rightarrow> 3 * (maxRounds st - currentRound st) + 1
  | Inr (Inr (gen, config, rnd, st)) \<Rightarrow> 3 * (maxRounds st - currentRound st))"
    by simp
next
  fix gen config rnd st x2 x y
  assume a: "shouldContinue config (scoreRound st)"
    "adjustParameters rnd (scoreRound st) = Inr x2" "(x, y) = x2"
  have s: "currentRound (scoreRound st) = currentRound st \<and> maxRounds (scoreRound st) = maxRounds st"
    by (simp add: scoreRound_def Let_def)
  have "currentRound x = currentRound (scoreRound st) \<and> maxRounds x = maxRounds (scoreRound st)"
    using a(2,3)
    by (auto simp: adjustParameters_def Let_def split: list.splits sum.splits if_splits)
  then have "currentRound x = currentRound st \<and> maxRounds x = maxRounds st"
    using s by simp
  moreover have "currentRound st < maxRounds st"
    using a(1) s by (simp add: shouldContinue_def split: if_splits)
  ultimately show "(Inl (gen, config, y, x), Inr (Inr (gen, config, rnd, st)))
          \<in> measure (\<lambda>x. case x of
    Inl (gen, config, rnd, st) \<Rightarrow> 3 * (maxRounds st - (currentRound st + 1)) + 2
  | Inr (Inl (gen, config, rnd, st)) \<Rightarrow> 3 * (maxRounds st - currentRound st) + 1
  | Inr (Inr (gen, config, rnd, st)) \<Rightarrow> 3 * (maxRounds st - currentRound st))"
    by simp
qed

declare startRound.simps [simp del] showCurrentPlate.simps [simp del]
  completeRound.simps [simp del]

definition tu_start ::
  "tuning_generator \<Rightarrow> tu_config \<Rightarrow> rng \<Rightarrow> tu_state \<Rightarrow> error + (tu_state \<times> rng)"
where
  "tu_start gen config rnd st =
     (if tu_isRunning st then Inr (st, rnd)
      else startRound gen config rnd (st\<lparr>tu_isRunning := True\<rparr>))"

text \<open>
  \<open>TuningEngine.recordResponse\<close>. Without a current plate it returns at once; otherwise
  it logs the response and shows the next plate or completes the round.
\<close>

definition tu_recordResponse ::
  "tuning_generator \<Rightarrow> tu_config \<Rightarrow> rng \<Rightarrow> string \<Rightarrow> tu_state \<Rightarrow> error + (tu_state \<times> rng)"
where
  "tu_recordResponse gen config rnd response st =
     (if \<not> tu_plateIndexS st < length (currentPlates st) then Inr (st, rnd)
      else
        let plate = currentPlates st ! tu_plateIndexS st;
            responseData =
              \<lparr>tu_plateIndex = tu_plateIndexS st, tu_plateType = pd_type plate,
               tu_targetValue = tg_value (pd_target plate), tu_userResponse = response,
               tu_isCorrect = (response = tg_value (pd_target plate))\<rparr>;
            st1 = st\<lparr>plateResponses := plateResponses st @ [responseData],
                     tu_plateIndexS := tu_plateIndexS st + 1\<rparr>
        in if tu_plateIndexS st1 \<ge> length (currentPlates st1)
           then completeRound gen config rnd st1
           else showCurrentPlate gen config rnd st1)"

text \<open>
  A tuning run: \<open>init\<close>, \<open>start\<close>, and then the responses of the subject one by one. A
  raise ends the run.
\<close>

fun tu_run ::
  "tuning_generator \<Rightarrow> tu_config \<Rightarrow> rng \<Rightarrow> tu_state \<Rightarrow> string list \<Rightarrow> error + (tu_state \<times> rng)"
where
  "tu_run gen config rnd st [] = Inr (st, rnd)"
| "tu_run gen config rnd st (response # rest) =
     (case tu_recordResponse gen config rnd response st of
        Inl e \<Rightarrow> Inl e
      | Inr (st', rnd') \<Rightarrow> tu_run gen config rnd' st' rest)"

definition tu_session ::
  "tuning_generator \<Rightarrow> tu_config \<Rightarrow> rng \<Rightarrow> tu_options \<Rightarrow> string list \<Rightarrow> error + (tu_state \<times> rng)"
where
  "tu_session gen config rnd options responses =
     (case tu_start gen config rnd (tu_init config options) of
        Inl e \<Rightarrow> Inl e
      | Inr (st, rnd') \<Rightarrow> tu_run gen config rnd' st responses)"

text \<open>The three stop conditions of \<open>shouldContinue\<close>.\<close>

definition stop_condition :: "tu_config \<Rightarrow> tu_state \<Rightarrow> bool" where
  "stop_condition config st \<longleftrightarrow>
     currentRound st \<ge> maxRounds st \<or> bestScore st \<ge> 100 \<or>
     noImprovementCount st \<ge> cfg_maxNoImprovement config"


text \<open>
  The states of a tuning run. Before a round starts the history holds one entry per
  round so far; within a round the round counter is one ahead of the history; a stopped
  run has no current plate and satisfies a stop condition. Once a round has been
  completed, a run that goes on has passed the continuation test. A run is settled when
  it waits for a response within a round or has stopped.
\<close>

definition before_round :: "tu_config \<Rightarrow> tu_state \<Rightarrow> bool" where
  "before_round config st \<longleftrightarrow>
     tu_isRunning st \<and> maxRounds st = cfg_maxRounds config \<and>
     length (history st) = currentRound st \<and>
     currentRound st + 1 \<le> max 1 (cfg_maxRounds config) \<and>
     (history st \<noteq> [] \<longrightarrow>
        currentRound st + 1 \<le> cfg_maxRounds config \<and> bestScore st < 100 \<and>
        noImprovementCount st < cfg_maxNoImprovement config)"

definition in_round :: "tu_config \<Rightarrow> tu_state \<Rightarrow> bool" where
  "in_round config st \<longleftrightarrow>
     tu_isRunning st \<and> maxRounds st = cfg_maxRounds config \<and>
     length (history st) + 1 = currentRound st \<and>
     currentRound st \<le> max 1 (cfg_maxRounds config) \<and>
     (history st \<noteq> [] \<longrightarrow>
        currentRound st \<le> cfg_maxRounds config \<and> bestScore st < 100 \<and>
        noImprovementCount st < cfg_maxNoImprovement config)"

definition stopped :: "tu_config \<Rightarrow> tu_state \<Rightarrow> bool" where
  "stopped config st \<longleftrightarrow>
     \<not> tu_isRunning st \<and> maxRounds st = cfg_maxRounds config \<and>
     length (history st) = currentRound st \<and>
     currentRound st \<le> max 1 (cfg_maxRounds config) \<and>
     stop_condition config st \<and>
     \<not> tu_plateIndexS st < length (currentPlates st)"

definition settled :: "tu_config \<Rightarrow> tu_state \<Rightarrow> bool" where
  "settled config st \<longleftrightarrow>
     (in_round config st \<and> tu_plateIndexS st < length (currentPlates st)) \<or> stopped config st"

section \<open>A sample tuning run\<close>

text \<open>
  A plate with the target 7 (its tiles are not needed by the engines), a sequence
  generator that returns one such plate per round, carrying the filter parameters of
  the round, and a \<open>Math.random\<close> that always returns one half.
\<close>

definition sample_plate :: plateData where
  "sample_plate =
     \<lparr>pd_seed = ''round-1-0'', pd_size = 400, pd_tileCount = 14, pd_tileSize = 28,
      pd_type = ''deutanConfusion'', pd_difficulty = ''medium'',
      pd_palette = \<lparr>mp_background = [\<lparr>hsl_h = 120, hsl_s = 45, hsl_l = 45\<rparr>],
                    mp_target = [\<lparr>hsl_h = 0, hsl_s = 50, hsl_l = 45\<rparr>]\<rparr>,
      pd_target = \<lparr>tg_type = ''number'', tg_value = ''7''\<rparr>,
      pd_filterParams = None, pd_tiles = []\<rparr>"

definition one_plate_gen :: tuning_generator where
  "one_plate_gen n ps r = [sample_plate\<lparr>pd_filterParams := Some ps\<rparr>]"

definition half_rng :: rng where
  "half_rng = (\<lambda>i. 1 / 2)"

definition no_options :: tu_options where
  "no_options = \<lparr>tuo_baselineSeverity = None, tuo_baselineScore = None\<rparr>"

text \<open>
  The run with the default configuration and two wrong answers: the state after
  \<open>start\<close>, the wrong answer as it is logged, the state at the start of round 2, where the
  parameters are the sixth of the ten finer neighbours of the moderate preset, and the
  final state.
\<close>

definition picked_params :: FilterParameters where
  "picked_params = preset_moderate\<lparr>saturationBoost := 35 / 2\<rparr>"

definition sample_start :: tu_state where
  "sample_start =
     (tu_init tu_default_config no_options)
       \<lparr>tu_isRunning := True, currentRound := 1,
        currentPlates := [sample_plate\<lparr>pd_filterParams := Some preset_moderate\<rparr>]\<rparr>"

definition wrong_response :: tu_response where
  "wrong_response =
     \<lparr>tu_plateIndex = 0, tu_plateType = ''deutanConfusion'', tu_targetValue = ''7'',
      tu_userResponse = ''x'', tu_isCorrect = False\<rparr>"

definition sample_round2 :: tu_state where
  "sample_round2 =
     sample_start
       \<lparr>currentRound := 2, currentParams := picked_params,
        history := [\<lparr>rr_round = 1, rr_params = preset_moderate, rr_score = 0, rr_correct = 0,
                     rr_total = 1, rr_responses = [wrong_response]\<rparr>],
        noImprovementCount := 1, tu_plateIndexS := 0,
        currentPlates := [sample_plate\<lparr>pd_filterParams := Some picked_params\<rparr>],
        plateResponses := []\<rparr>"

definition sample_final :: tu_state where
  "sample_final =
     sample_round2
       \<lparr>tu_isRunning := False,
        history := history sample_round2 @
          [\<lparr>rr_round = 2, rr_params = picked_params, rr_score = 0, rr_correct = 0,
            rr_total = 1, rr_responses = [wrong_response]\<rparr>],
        noImprovementCount := 2, tu_plateIndexS := 1,
        plateResponses := [wrong_response]\<rparr>"

text \<open>
  A test engine with a one-plate sequence generator: the state after \<open>init\<close> and \<open>start\<close>,
  and the state after its only plate has been answered.
\<close>

definition one_plate_sequence :: sequence_generator where
  "one_plate_sequence tuning n d fp seed = [sample_plate\<lparr>pd_seed := seed\<rparr>]"

definition no_te_options :: te_options where
  "no_te_options = \<lparr>teo_mode = None, teo_plateCount = None, teo_filterParams = None\<rparr>"

definition started_test :: te_state where
  "started_test =
     te_start (te_init one_plate_sequence ''seed'' te_default_config no_te_options)"

definition exhausted_test :: te_state where
  "exhausted_test =
     \<lparr>te_isRunning = False, te_currentPlateIndex = 1,
      te_plates = [sample_plate\<lparr>pd_seed := ''seed''\<rparr>],
      te_responses =
        [\<lparr>te_plateIndex = 0, te_plateType = ''deutanConfusion'', te_targetType = ''number'',
          te_targetValue = ''7'', te_userResponse = Some '' 7 '', te_isCorrect = True,
          te_difficulty = ''medium'', te_seed = ''seed''\<rparr>],
      te_filterParams = None, te_mode = ''baseline'', te_stateSeed = ''seed''\<rparr>"



section \<open>Plate generators\<close>

text \<open>
  What the generators take from \<open>js/utils.js\<close>, which is not among the sources, is a
  parameter: \<open>Utils.createRNG\<close>, from a seed to the generator seeded with it, and the
  color conversions \<open>Utils.hslToRgb\<close> and \<open>Utils.rgbToHex\<close>.
\<close>

record utils =
  u_createRNG :: "string \<Rightarrow> rng"
  u_hslToRgb :: "triple \<Rightarrow> triple"
  u_rgbToHex :: "triple \<Rightarrow> string"

text \<open>
  The state around a call that the request does not carry: the seed that
  \<open>Utils.generateSeed()\<close> would return now, and the permutation table of
  \<open>AnimatedMosaic.noise\<close>. The table is a JavaScript array: an index without an element
  reads as \<open>undefined\<close>, here \<open>None\<close>.
\<close>

record world =
  w_freshSeed :: string
  w_noisePerm :: "int \<Rightarrow> nat option"

subsection \<open>Animated outlier plates\<close>

record apalette =
  ap_name :: string
  ap_background :: hsl
  ap_outlier :: hsl
  ap_variance :: hsl

definition mk_hsl :: "real \<Rightarrow> real \<Rightarrow> real \<Rightarrow> hsl" where
  "mk_hsl a b c = \<lparr>hsl_h = a, hsl_s = b, hsl_l = c\<rparr>"

definition mk_apalette :: "string \<Rightarrow> hsl \<Rightarrow> hsl \<Rightarrow> hsl \<Rightarrow> apalette" where
  "mk_apalette n b out v =
     \<lparr>ap_name = n, ap_background = b, ap_outlier = out, ap_variance = v\<rparr>"

definition palettes_deutan :: "apalette list" where
  "palettes_deutan =
     [mk_apalette ''green-red'' (mk_hsl 120 45 45) (mk_hsl 0 50 45) (mk_hsl 15 10 8),
      mk_apalette ''olive-lime'' (mk_hsl 50 40 42) (mk_hsl 85 45 42) (mk_hsl 12 8 6),
      mk_apalette ''brown-green'' (mk_hsl 20 42 44) (mk_hsl 140 48 42) (mk_hsl 10 8 7),
      mk_apalette ''teal-pink'' (mk_hsl 165 38 46) (mk_hsl 340 45 50) (mk_hsl 14 10 8),
      mk_apalette ''cyan-orange'' (mk_hsl 155 42 48) (mk_hsl 25 55 50) (mk_hsl 12 10 7),
      mk_apalette ''sage-coral'' (mk_hsl 100 35 50) (mk_hsl 10 60 52) (mk_hsl 15 10 8)]"

definition palettes_control :: "apalette list" where
  "palettes_control =
     [mk_apalette ''blue-yellow'' (mk_hsl 220 55 48) (mk_hsl 55 75 55) (mk_hsl 12 10 8),
      mk_apalette ''purple-yellow'' (mk_hsl 275 50 45) (mk_hsl 50 70 55) (mk_hsl 14 10 7),
      mk_apalette ''navy-orange'' (mk_hsl 235 55 35) (mk_hsl 35 80 60) (mk_hsl 10 10 8)]"

text \<open>\<open>config.gridSizes[difficulty] || 3\<close> and \<open>config.tilesPerSquare[difficulty] || 10\<close>.\<close>

definition gridSize_of :: "string \<Rightarrow> nat" where
  "gridSize_of d =
     (if d = ''easy'' then 2 else if d = ''medium'' then 3 else if d = ''hard'' then 4 else 3)"

definition tilesPerSquare_of :: "string \<Rightarrow> nat" where
  "tilesPerSquare_of d =
     (if d = ''easy'' then 8 else if d = ''medium'' then 10 else if d = ''hard'' then 12
      else 10)"

text \<open>
  \<open>AnimatedMosaic.noise.init\<close>: the identity table on 0 to 255, shuffled from the back with
  a generator seeded with \<open>seed\<close>, then copied to 256 to 511.
\<close>

definition noise_shuffle_step ::
  "(int \<Rightarrow> nat option) \<times> rng \<Rightarrow> nat \<Rightarrow> (int \<Rightarrow> nat option) \<times> rng" where
  "noise_shuffle_step pr i =
     (case pr of (perm, r) \<Rightarrow>
        case rng_next r of (u, r') \<Rightarrow>
          let j = Math_floor (u * (real i + 1)) in
          (perm(int i := perm j, j := perm (int i)), r'))"

definition noise_init :: "utils \<Rightarrow> string \<Rightarrow> (int \<Rightarrow> nat option)" where
  "noise_init U seed =
     (let perm0 = (\<lambda>k. if 0 \<le> k \<and> k < 256 then Some (nat k) else None);
          perm1 = fst (foldl noise_shuffle_step (perm0, u_createRNG U seed) (rev [1..<256]))
      in (\<lambda>k. if 256 \<le> k \<and> k < 512 then perm1 (k - 256) else perm1 k))"

record square =
  sq_index :: nat
  sq_row :: nat
  sq_col :: nat
  sq_isOutlier :: bool
  sq_baseColor :: hsl
  sq_variance :: hsl
  sq_animPhase :: real
  sq_animSpeed :: real
  sq_flowDirection :: real

record aplate =
  apl_seed :: string
  apl_difficulty :: string
  apl_type :: string
  apl_subtlety :: real
  apl_gridSize :: nat
  apl_tilesPerSquare :: nat
  apl_palette :: apalette
  apl_outlierIndex :: int
  apl_squares :: "square list"
  apl_startTime :: real

record aoptions =
  ao_difficulty :: "string option"
  ao_type :: "string option"
  ao_seed :: "string option"
  ao_subtlety :: "real option"

text \<open>
  The loop of \<open>AnimatedMosaic.generatePlate\<close> over the squares. Each square draws its
  phase, then its speed offset if it is the outlier, then its flow direction.
\<close>

fun gen_squares :: "nat \<Rightarrow> int \<Rightarrow> apalette \<Rightarrow> real \<Rightarrow> nat list \<Rightarrow> rng \<Rightarrow> square list" where
  "gen_squares gridSize outlierIndex palette subtlety [] r = []"
| "gen_squares gridSize outlierIndex palette subtlety (i # rest) r =
     (let isOutlier = (int i = outlierIndex) in
      case rng_next r of (u1, r1) \<Rightarrow>
        case (if isOutlier
              then (case rng_next r1 of (u2, r2) \<Rightarrow> (1 + (u2 - 1 / 2) * (2 / 10) * subtlety, r2))
              else (1 + 0, r1)) of
          (animSpeed, r2) \<Rightarrow>
            case rng_next r2 of (u3, r3) \<Rightarrow>
              \<lparr>sq_index = i, sq_row = i div gridSize, sq_col = i mod gridSize,
               sq_isOutlier = isOutlier,
               sq_baseColor = (if isOutlier then ap_outlier palette else ap_background palette),
               sq_variance = ap_variance palette,
               sq_animPhase = u1 * pi * 2, sq_animSpeed = animSpeed,
               sq_flowDirection = u3 * pi * 2\<rparr>
              # gen_squares gridSize outlierIndex palette subtlety rest r3)"

definition a_generatePlate :: "utils \<Rightarrow> world \<Rightarrow> aoptions \<Rightarrow> error + (aplate \<times> world)" where
  "a_generatePlate U w options =
     (let difficulty = (case ao_difficulty options of Some d \<Rightarrow> d | None \<Rightarrow> ''medium'');
          type = (case ao_type options of Some t \<Rightarrow> t | None \<Rightarrow> ''deutan'');
          seed = (case ao_seed options of Some s \<Rightarrow> s | None \<Rightarrow> w_freshSeed w);
          subtlety = (case ao_subtlety options of Some s \<Rightarrow> s | None \<Rightarrow> 1);
          rng0 = u_createRNG U seed;
          w' = w\<lparr>w_noisePerm := noise_init U seed\<rparr>;
          gridSize = gridSize_of difficulty;
          tilesPerSquare = tilesPerSquare_of difficulty;
          paletteList = (if type = ''control'' then palettes_control else palettes_deutan)
      in case randomPick paletteList rng0 of
           Inl e \<Rightarrow> Inl e
         | Inr (palette, rng1) \<Rightarrow>
             (case rng_next rng1 of (u, rng2) \<Rightarrow>
                let totalSquares = gridSize * gridSize;
                    outlierIndex = Math_floor (u * real totalSquares);
                    squares =
                      gen_squares gridSize outlierIndex palette subtlety [0..<totalSquares] rng2
                in Inr (\<lparr>apl_seed = seed, apl_difficulty = difficulty, apl_type = type,
                         apl_subtlety = subtlety, apl_gridSize = gridSize,
                         apl_tilesPerSquare = tilesPerSquare, apl_palette = palette,
                         apl_outlierIndex = outlierIndex, apl_squares = squares,
                         apl_startTime = 0\<rparr>, w')))"

subsection \<open>Mosaic plates\<close>

definition mk_mpalette :: "hsl list \<Rightarrow> hsl list \<Rightarrow> mpalette" where
  "mk_mpalette bg tg = \<lparr>mp_background = bg, mp_target = tg\<rparr>"

definition deutanConfusion :: "mpalette list" where
  "deutanConfusion =
     [mk_mpalette [mk_hsl 120 45 45, mk_hsl 125 40 50, mk_hsl 115 50 40, mk_hsl 130 42 48]
                  [mk_hsl 0 50 45, mk_hsl 5 45 48, mk_hsl 355 48 42],
      mk_mpalette [mk_hsl 45 35 40, mk_hsl 50 38 42, mk_hsl 40 32 45, mk_hsl 55 36 38]
                  [mk_hsl 85 45 42, mk_hsl 90 42 45, mk_hsl 80 48 40],
      mk_mpalette [mk_hsl 15 40 42, mk_hsl 20 38 45, mk_hsl 10 42 40, mk_hsl 25 36 44]
                  [mk_hsl 140 48 40, mk_hsl 145 45 42, mk_hsl 135 50 38],
      mk_mpalette [mk_hsl 165 35 45, mk_hsl 170 38 42, mk_hsl 160 32 48, mk_hsl 175 36 44]
                  [mk_hsl 340 45 50, mk_hsl 345 42 48, mk_hsl 335 48 52],
      mk_mpalette [mk_hsl 150 42 48, mk_hsl 155 38 45, mk_hsl 145 45 50, mk_hsl 160 40 46]
                  [mk_hsl 25 55 50, mk_hsl 30 52 48, mk_hsl 20 58 52]]"

definition controlPalettes :: "mpalette list" where
  "controlPalettes =
     [mk_mpalette [mk_hsl 220 50 50, mk_hsl 225 48 52, mk_hsl 215 52 48, mk_hsl 230 46 54]
                  [mk_hsl 55 70 55, mk_hsl 60 68 52, mk_hsl 50 72 58],
      mk_mpalette [mk_hsl 270 45 45, mk_hsl 275 42 48, mk_hsl 265 48 42, mk_hsl 280 44 46]
                  [mk_hsl 48 65 55, mk_hsl 52 62 58, mk_hsl 44 68 52],
      mk_mpalette [mk_hsl 235 55 35, mk_hsl 240 52 38, mk_hsl 230 58 32, mk_hsl 245 50 36]
                  [mk_hsl 35 80 65, mk_hsl 40 78 62, mk_hsl 30 82 68]]"

definition targetNumbers :: "string list" where
  "targetNumbers = [''2'', ''3'', ''5'', ''6'', ''7'', ''8'', ''9'']"

definition targetLetters :: "string list" where
  "targetLetters = [''A'', ''C'', ''E'', ''H'', ''K'', ''N'', ''O'', ''P'', ''S'', ''X'']"

definition targetShapes :: "string list" where
  "targetShapes = [''circle'', ''square'', ''triangle'', ''diamond'']"

text \<open>\<open>MosaicGenerator.getCharacterPatterns\<close>: a 5 by 7 bitmap per character.\<close>

definition getCharacterPatterns :: "string \<rightharpoonup> nat list list" where
  "getCharacterPatterns = map_of
     [(''2'', [[0,1,1,1,0], [1,0,0,0,1], [0,0,0,0,1], [0,0,1,1,0], [0,1,0,0,0], [1,0,0,0,0],
              [1,1,1,1,1]]),
      (''3'', [[0,1,1,1,0], [1,0,0,0,1], [0,0,0,0,1], [0,0,1,1,0], [0,0,0,0,1], [1,0,0,0,1],
              [0,1,1,1,0]]),
      (''5'', [[1,1,1,1,1], [1,0,0,0,0], [1,1,1,1,0], [0,0,0,0,1], [0,0,0,0,1], [1,0,0,0,1],
              [0,1,1,1,0]]),
      (''6'', [[0,0,1,1,0], [0,1,0,0,0], [1,0,0,0,0], [1,1,1,1,0], [1,0,0,0,1], [1,0,0,0,1],
              [0,1,1,1,0]]),
      (''7'', [[1,1,1,1,1], [0,0,0,0,1], [0,0,0,1,0], [0,0,1,0,0], [0,1,0,0,0], [0,1,0,0,0],
              [0,1,0,0,0]]),
      (''8'', [[0,1,1,1,0], [1,0,0,0,1], [1,0,0,0,1], [0,1,1,1,0], [1,0,0,0,1], [1,0,0,0,1],
              [0,1,1,1,0]]),
      (''9'', [[0,1,1,1,0], [1,0,0,0,1], [1,0,0,0,1], [0,1,1,1,1], [0,0,0,0,1], [0,0,0,1,0],
              [0,1,1,0,0]]),
      (''A'', [[0,0,1,0,0], [0,1,0,1,0], [1,0,0,0,1], [1,0,0,0,1], [1,1,1,1,1], [1,0,0,0,1],
              [1,0,0,0,1]]),
      (''C'', [[0,1,1,1,0], [1,0,0,0,1], [1,0,0,0,0], [1,0,0,0,0], [1,0,0,0,0], [1,0,0,0,1],
              [0,1,1,1,0]]),
      (''E'', [[1,1,1,1,1], [1,0,0,0,0], [1,0,0,0,0], [1,1,1,1,0], [1,0,0,0,0], [1,0,0,0,0],
              [1,1,1,1,1]]),
      (''H'', [[1,0,0,0,1], [1,0,0,0,1], [1,0,0,0,1], [1,1,1,1,1], [1,0,0,0,1], [1,0,0,0,1],
              [1,0,0,0,1]]),
      (''K'', [[1,0,0,0,1], [1,0,0,1,0], [1,0,1,0,0], [1,1,0,0,0], [1,0,1,0,0], [1,0,0,1,0],
              [1,0,0,0,1]]),
      (''N'', [[1,0,0,0,1], [1,1,0,0,1], [1,0,1,0,1], [1,0,0,1,1], [1,0,0,0,1], [1,0,0,0,1],
              [1,0,0,0,1]]),
      (''O'', [[0,1,1,1,0], [1,0,0,0,1], [1,0,0,0,1], [1,0,0,0,1], [1,0,0,0,1], [1,0,0,0,1],
              [0,1,1,1,0]]),
      (''P'', [[1,1,1,1,0], [1,0,0,0,1], [1,0,0,0,1], [1,1,1,1,0], [1,0,0,0,0], [1,0,0,0,0],
              [1,0,0,0,0]]),
      (''S'', [[0,1,1,1,0], [1,0,0,0,1], [1,0,0,0,0], [0,1,1,1,0], [0,0,0,0,1], [1,0,0,0,1],
              [0,1,1,1,0]]),
      (''X'', [[1,0,0,0,1], [0,1,0,1,0], [0,0,1,0,0], [0,0,1,0,0], [0,0,1,0,0], [0,1,0,1,0],
              [1,0,0,0,1]])]"

text \<open>
  \<open>MosaicGenerator.createTargetMask\<close>. The cells the loops set to \<open>true\<close> are collected in a
  list; the mask has \<open>gridSize\<close> rows of \<open>gridSize\<close> cells. The counters \<open>sy\<close> and \<open>sx\<close> run
  over the naturals below \<open>scale\<close>.
\<close>

definition char_cells :: "nat \<Rightarrow> nat list list \<Rightarrow> (nat \<times> nat) list" where
  "char_cells gridSize pattern =
     (let scale = real gridSize / 14;
          patternHeight = length pattern;
          patternWidth = (case pattern of [] \<Rightarrow> 0 | firstRow # _ \<Rightarrow> length firstRow);
          startRow = Math_floor ((real gridSize - real patternHeight * scale) / 2);
          startCol = Math_floor ((real gridSize - real patternWidth * scale) / 2);
          steps = [0..<nat \<lceil>scale\<rceil>]
      in concat (map (\<lambda>py. concat (map (\<lambda>px.
           if pattern ! py ! px = 1 then
             concat (map (\<lambda>sy. concat (map (\<lambda>sx.
               let row = Math_floor (real_of_int startRow + real py * scale + real sy);
                   col = Math_floor (real_of_int startCol + real px * scale + real sx)
               in if row \<ge> 0 \<and> row < int gridSize \<and> col \<ge> 0 \<and> col < int gridSize
                  then [(nat row, nat col)] else []) steps)) steps)
           else []) [0..<patternWidth])) [0..<patternHeight]))"

definition shape_cell :: "nat \<Rightarrow> string \<Rightarrow> nat \<Rightarrow> nat \<Rightarrow> bool" where
  "shape_cell gridSize shape row col =
     (let centerX = real gridSize / 2;
          centerY = real gridSize / 2;
          radius = real gridSize * (35 / 100);
          dx = real col - centerX + 1 / 2;
          dy = real row - centerY + 1 / 2
      in if shape = ''circle'' then sqrt (dx * dx + dy * dy) < radius
         else if shape = ''square'' then
           \<bar>dx\<bar> < radius * (7 / 10) \<and> \<bar>dy\<bar> < radius * (7 / 10)
         else if shape = ''triangle'' then
           dy > - radius * (6 / 10) \<and> dy < radius * (6 / 10) \<and>
           \<bar>dx\<bar> < (radius * (6 / 10) - dy * (1 / 2))
         else if shape = ''diamond'' then \<bar>dx\<bar> + \<bar>dy\<bar> < radius * (8 / 10)
         else False)"

definition createTargetMask :: "nat \<Rightarrow> target \<Rightarrow> bool list list" where
  "createTargetMask gridSize tg =
     (if tg_type tg = ''number'' \<or> tg_type tg = ''letter'' then
        (case getCharacterPatterns (tg_value tg) of
           None \<Rightarrow> replicate gridSize (replicate gridSize False)
         | Some pattern \<Rightarrow>
             map (\<lambda>row. map (\<lambda>col. (row, col) \<in> set (char_cells gridSize pattern))
                            [0..<gridSize]) [0..<gridSize])
      else if tg_type tg = ''shape'' then
        map (\<lambda>row. map (\<lambda>col. shape_cell gridSize (tg_value tg) row col) [0..<gridSize])
          [0..<gridSize]
      else replicate gridSize (replicate gridSize False))"

text \<open>\<open>MosaicGenerator.applyFilterToHSL\<close>.\<close>

definition applyFilterToHSL :: "hsl \<Rightarrow> FilterParameters \<Rightarrow> hsl" where
  "applyFilterToHSL c fp =
     \<lparr>hsl_h = js_rem (hsl_h c + hueShift fp * intensity fp + 360) 360,
      hsl_s = clamp (hsl_s c + saturationBoost fp * intensity fp) 0 100,
      hsl_l = hsl_l c\<rparr>"

text \<open>
  The loop of \<open>MosaicGenerator.generateTiles\<close> over the cells, row by row. Each tile picks
  its base color and then draws three numbers for the variation. The cell is within the
  mask, which has \<open>tileCount\<close> rows of \<open>tileCount\<close> cells.
\<close>

fun gen_tiles ::
  "utils \<Rightarrow> int \<Rightarrow> mpalette \<Rightarrow> bool list list \<Rightarrow> FilterParameters option \<Rightarrow>
   (nat \<times> nat) list \<Rightarrow> rng \<Rightarrow> error + tile list"
where
  "gen_tiles U tileSize palette targetMask fp [] r = Inr []"
| "gen_tiles U tileSize palette targetMask fp ((row, col) # rest) r =
     (let isTarget = targetMask ! row ! col;
          colorSet = (if isTarget then mp_target palette else mp_background palette)
      in case randomPick colorSet r of
           Inl e \<Rightarrow> Inl e
         | Inr (baseColor, r0) \<Rightarrow>
             (case rng_next r0 of (u1, r1) \<Rightarrow>
              case rng_next r1 of (u2, r2) \<Rightarrow>
              case rng_next r2 of (u3, r3) \<Rightarrow>
                let color0 = \<lparr>hsl_h = hsl_h baseColor + (u1 - 1 / 2) * 8,
                               hsl_s = hsl_s baseColor + (u2 - 1 / 2) * 6,
                               hsl_l = hsl_l baseColor + (u3 - 1 / 2) * 6\<rparr>;
                    color = (case fp of None \<Rightarrow> color0 | Some f \<Rightarrow> applyFilterToHSL color0 f);
                    rgb = u_hslToRgb U (hsl_h color, hsl_s color, hsl_l color);
                    t = \<lparr>tl_row = row, tl_col = col, tl_x = int col * tileSize,
                         tl_y = int row * tileSize, tl_size = tileSize, tl_isTarget = isTarget,
                         tl_color = u_rgbToHex U rgb, tl_rgb = rgb\<rparr>
                in case gen_tiles U tileSize palette targetMask fp rest r3 of
                     Inl e \<Rightarrow> Inl e
                   | Inr ts \<Rightarrow> Inr (t # ts)))"

definition generateTiles ::
  "utils \<Rightarrow> nat \<Rightarrow> int \<Rightarrow> mpalette \<Rightarrow> target \<Rightarrow> rng \<Rightarrow> FilterParameters option \<Rightarrow>
   error + tile list"
where
  "generateTiles U tileCount tileSize palette tg r fp =
     gen_tiles U tileSize palette (createTargetMask tileCount tg) fp
       (concat (map (\<lambda>row. map (\<lambda>col. (row, col)) [0..<tileCount]) [0..<tileCount])) r"

record moptions =
  mo_size :: "real option"
  mo_type :: "string option"
  mo_seed :: "string option"
  mo_difficulty :: "string option"
  mo_targetType :: "string option"
  mo_filterParams :: "FilterParameters option"

text \<open>\<open>tileCounts[difficulty] || 14\<close>.\<close>

definition tileCount_of :: "string \<Rightarrow> nat" where
  "tileCount_of d =
     (if d = ''easy'' then 10 else if d = ''medium'' then 14 else if d = ''hard'' then 18
      else 14)"

text \<open>\<open>MosaicGenerator.generatePlate\<close>.\<close>

definition m_generatePlate :: "utils \<Rightarrow> world \<Rightarrow> moptions \<Rightarrow> error + plateData" where
  "m_generatePlate U w options =
     (let size = (case mo_size options of Some s \<Rightarrow> s | None \<Rightarrow> 400);
          type = (case mo_type options of Some t \<Rightarrow> t | None \<Rightarrow> ''deutanConfusion'');
          seed = (case mo_seed options of Some s \<Rightarrow> s | None \<Rightarrow> w_freshSeed w);
          difficulty = (case mo_difficulty options of Some d \<Rightarrow> d | None \<Rightarrow> ''medium'');
          targetType = (case mo_targetType options of Some t \<Rightarrow> t | None \<Rightarrow> ''number'');
          filterParams = mo_filterParams options;
          rng0 = u_createRNG U seed;
          tileCount = tileCount_of difficulty;
          tileSize = Math_floor (size / real tileCount);
          palettes = (if type = ''control'' then controlPalettes else deutanConfusion)
      in case randomPick palettes rng0 of
           Inl e \<Rightarrow> Inl e
         | Inr (palette, rng1) \<Rightarrow>
             (case (if targetType = ''number'' then
                      map_sum id (\<lambda>(v, r). (\<lparr>tg_type = ''number'', tg_value = v\<rparr>, r))
                        (randomPick targetNumbers rng1)
                    else if targetType = ''letter'' then
                      map_sum id (\<lambda>(v, r). (\<lparr>tg_type = ''letter'', tg_value = v\<rparr>, r))
                        (randomPick targetLetters rng1)
                    else
                      map_sum id (\<lambda>(v, r). (\<lparr>tg_type = ''shape'', tg_value = v\<rparr>, r))
                        (randomPick targetShapes rng1)) of
                Inl e \<Rightarrow> Inl e
              | Inr (tg, rng2) \<Rightarrow>
                  (case generateTiles U tileCount tileSize palette tg rng2 filterParams of
                     Inl e \<Rightarrow> Inl e
                   | Inr tiles \<Rightarrow>
                       Inr \<lparr>pd_seed = seed, pd_size = size, pd_tileCount = tileCount,
                            pd_tileSize = tileSize, pd_type = type,
                            pd_difficulty = difficulty, pd_palette = palette,
                            pd_target = tg, pd_filterParams = filterParams,
                            pd_tiles = tiles\<rparr>)))"

subsection \<open>Sample requests\<close>

text \<open>
  A generator whose numbers are tenths that start at the length of the seed, a stand-in
  for \<open>Utils.rgbToHex\<close>, two different states of the surroundings, and a seeded request
  for each plate generator.
\<close>

definition sample_createRNG :: "string \<Rightarrow> rng" where
  "sample_createRNG seed = (\<lambda>i. real ((length seed + i) mod 10) / 10)"

definition sample_rgbToHex :: "triple \<Rightarrow> string" where
  "sample_rgbToHex rgb = (if rgb = (0, 0, 0) then ''#000000'' else ''#rrggbb'')"

definition sample_utils :: utils where
  "sample_utils =
     \<lparr>u_createRNG = sample_createRNG, u_hslToRgb = std_hslToRgb, u_rgbToHex = sample_rgbToHex\<rparr>"

definition world1 :: world where
  "world1 = \<lparr>w_freshSeed = ''first'', w_noisePerm = (\<lambda>k. None)\<rparr>"

definition world2 :: world where
  "world2 = \<lparr>w_freshSeed = ''second'', w_noisePerm = (\<lambda>k. Some 0)\<rparr>"

definition seeded_aoptions :: aoptions where
  "seeded_aoptions =
     \<lparr>ao_difficulty = Some ''medium'', ao_type = Some ''deutan'', ao_seed = Some ''abc'',
      ao_subtlety = None\<rparr>"

definition seeded_moptions :: moptions where
  "seeded_moptions =
     \<lparr>mo_size = None, mo_type = Some ''control'', mo_seed = Some ''abc'',
      mo_difficulty = Some ''easy'', mo_targetType = Some ''shape'',
      mo_filterParams = Some preset_mild\<rparr>"

section \<open>Properties of scoring and severity\<close>



























text \<open>
  Claim C7. With the control score at 100, lowering the confusion-axis score never
  lowers the rank of the bucket (none < mild < moderate < strong), in
  \<open>TestEngine.estimateSeverity\<close> and in \<open>OutlierTestEngine.calculateSeverity\<close>; both
  buckets are among the four ranked ones.
\<close>

theorem C7_severity_antitone:
  assumes "a \<le> b" and "score cs = 100" and "score da = a" and "score db = b"
  shows "(\<exists>ra rb. rank (est_bucket (estimateSeverity a 100)) = Some ra \<and>
                  rank (est_bucket (estimateSeverity b 100)) = Some rb \<and> rb \<le> ra) \<and>
         (\<exists>ra rb. rank (sev_bucket (calculateSeverity da cs)) = Some ra \<and>
                  rank (sev_bucket (calculateSeverity db cs)) = Some rb \<and> rb \<le> ra)"
  using assms
  by (simp add: estimateSeverity_def severityValue_def adjustedScore_def
      calculateSeverity_def Let_def)

theorem C7_severity_antitone_witness:
  "(30::real) \<le> 75 \<and>
   rank (est_bucket (estimateSeverity 30 100)) = Some 3 \<and>
   rank (est_bucket (estimateSeverity 75 100)) = Some 1 \<and>
   rank (sev_bucket (calculateSeverity \<lparr>correct = 3, total = 10, score = 30\<rparr>
                                       \<lparr>correct = 6, total = 6, score = 100\<rparr>)) = Some 3 \<and>
   rank (sev_bucket (calculateSeverity \<lparr>correct = 3, total = 4, score = 75\<rparr>
                                       \<lparr>correct = 6, total = 6, score = 100\<rparr>)) = Some 1"
  using C7_severity_antitone [of 30 75 "\<lparr>correct = 6, total = 6, score = 100\<rparr>"
      "\<lparr>correct = 3, total = 10, score = 30\<rparr>" "\<lparr>correct = 3, total = 4, score = 75\<rparr>"]
  by (simp add: estimateSeverity_def severityValue_def adjustedScore_def
      calculateSeverity_def Let_def)

section \<open>Properties of the color filter\<close>

lemma param_keys_all: "set param_keys = UNIV"
proof -
  have "p \<in> set param_keys" for p by (cases p) (simp_all add: param_keys_def)
  then show ?thesis by blast
qed

lemma get_set_param:
  "get_param (set_param ps p v) q = (if p = q then v else get_param ps q)"
  by (cases p; cases q) simp_all

lemma round2_ge_int: "of_int k \<le> x \<Longrightarrow> of_int k \<le> round2 x"
proof -
  assume "of_int k \<le> x"
  then have "of_int (100 * k) \<le> x * 100 + 1 / 2" by simp
  then have "100 * k \<le> \<lfloor>x * 100 + 1 / 2\<rfloor>" by (simp only: le_floor_iff)
  then have "of_int (100 * k) \<le> (of_int \<lfloor>x * 100 + 1 / 2\<rfloor> :: real)"
    by (simp only: of_int_le_iff)
  then show ?thesis by (simp add: round2_def Math_round_def)
qed

lemma round2_le_int: "x \<le> of_int k \<Longrightarrow> round2 x \<le> of_int k"
proof -
  assume "x \<le> of_int k"
  then have "x * 100 + 1 / 2 < of_int (100 * k + 1)" by simp
  then have "\<lfloor>x * 100 + 1 / 2\<rfloor> < 100 * k + 1" by (simp only: floor_less_iff)
  then have "\<lfloor>x * 100 + 1 / 2\<rfloor> \<le> 100 * k" by simp
  then have "(of_int \<lfloor>x * 100 + 1 / 2\<rfloor> :: real) \<le> of_int (100 * k)"
    by (simp only: of_int_le_iff)
  then show ?thesis by (simp add: round2_def Math_round_def)
qed

lemma rmin_int: "\<exists>k. rmin (paramRanges p) = of_int k"
proof (cases p)
  case HueShift then show ?thesis by (auto intro: exI[of _ "-60"])
next
  case Intensity then show ?thesis by (auto intro: exI[of _ "0"])
next
  case SaturationBoost then show ?thesis by (auto intro: exI[of _ "-20"])
next
  case Brightness then show ?thesis by (auto intro: exI[of _ "-20"])
next
  case Contrast then show ?thesis by (auto intro: exI[of _ "-20"])
qed

lemma rmax_int: "\<exists>k. rmax (paramRanges p) = of_int k"
proof (cases p)
  case HueShift then show ?thesis by (auto intro: exI[of _ "60"])
next
  case Intensity then show ?thesis by (auto intro: exI[of _ "1"])
next
  case SaturationBoost then show ?thesis by (auto intro: exI[of _ "40"])
next
  case Brightness then show ?thesis by (auto intro: exI[of _ "20"])
next
  case Contrast then show ?thesis by (auto intro: exI[of _ "20"])
qed








lemma in_ranges_iff:
  "in_ranges ps \<longleftrightarrow>
     (\<forall>p. rmin (paramRanges p) \<le> get_param ps p \<and> get_param ps p \<le> rmax (paramRanges p))"
  unfolding in_ranges_def list_all_iff param_keys_all by simp

lemma lower_variant_props:
  assumes "lower_ok params m p"
  shows "(\<forall>q. q \<noteq> p \<longrightarrow> get_param (lower_variant params m p) q = get_param params q)"
    and "get_param (lower_variant params m p) p = round2 (get_param params p - rstep (paramRanges p) * m)"
    and "rmin (paramRanges p) \<le> get_param (lower_variant params m p) p"
  using assms rmin_int[of p] round2_ge_int
  by (auto simp: lower_variant_def lower_ok_def get_set_param)

lemma upper_variant_props:
  assumes "upper_ok params m p"
  shows "(\<forall>q. q \<noteq> p \<longrightarrow> get_param (upper_variant params m p) q = get_param params q)"
    and "get_param (upper_variant params m p) p = round2 (get_param params p + rstep (paramRanges p) * m)"
    and "get_param (upper_variant params m p) p \<le> rmax (paramRanges p)"
  using assms rmax_int[of p] round2_le_int
  by (auto simp: upper_variant_def upper_ok_def get_set_param)










lemma clamp_id: "lo \<le> v \<Longrightarrow> v \<le> hi \<Longrightarrow> clamp v lo hi = v"
  by (simp add: clamp_def)

lemma key_name_inj: "key_name p = key_name q \<longleftrightarrow> p = q"
  by (cases p; cases q) simp_all

lemma normalizeParams_get:
  "get_param (normalizeParams obj) p =
     (case obj (key_name p) of
        None \<Rightarrow> get_param defaults p
      | Some v \<Rightarrow> clamp v (rmin (paramRanges p)) (rmax (paramRanges p)))"
  by (cases p) (simp_all add: normalizeParams_def param_keys_def split: option.splits)



lemma FilterParameters_eqI:
  fixes a b :: FilterParameters
  assumes "\<And>p. get_param a p = get_param b p"
  shows "a = b"
  using assms [of HueShift] assms [of Intensity] assms [of SaturationBoost]
    assms [of Brightness] assms [of Contrast]
  by simp



lemma to_object_get: "to_object ps (key_name p) = Some (get_param ps p)"
  by (cases p) (simp_all add: to_object_def)

lemma normalizeParams_to_object:
  "in_ranges ps \<Longrightarrow> normalizeParams (to_object ps) = ps"
  by (rule FilterParameters_eqI) (simp add: normalizeParams_get to_object_get clamp_id in_ranges_iff)












section \<open>Properties of the tuning engine\<close>











lemma adjustParameters_only_params:
  "adjustParameters rnd st = Inr (st', rnd') \<Longrightarrow> \<exists>ps. st' = st\<lparr>currentParams := ps\<rparr>"
  by (auto simp: adjustParameters_def Let_def split: list.splits sum.splits)

lemma shouldContinue_iff: "shouldContinue config st \<longleftrightarrow> \<not> stop_condition config st"
  by (auto simp: shouldContinue_def stop_condition_def)

lemma scoreRound_fields:
  "tu_isRunning (scoreRound st) = tu_isRunning st"
  "maxRounds (scoreRound st) = maxRounds st"
  "currentRound (scoreRound st) = currentRound st"
  "tu_plateIndexS (scoreRound st) = tu_plateIndexS st"
  "currentPlates (scoreRound st) = currentPlates st"
  "length (history (scoreRound st)) = length (history st) + 1"
  "history (scoreRound st) \<noteq> []"
  by (simp_all add: scoreRound_def Let_def)

lemma before_round_enter: "before_round config st \<Longrightarrow> in_round config (enterRound gen config st)"
  by (auto simp: before_round_def in_round_def enterRound_def)

lemma rounds_settled:
  "startRound gen config rnd st = Inr (s', r') \<Longrightarrow> before_round config st \<Longrightarrow> settled config s'"
  "showCurrentPlate gen config rnd st = Inr (s', r') \<Longrightarrow> in_round config st \<Longrightarrow> settled config s'"
  "completeRound gen config rnd st = Inr (s', r') \<Longrightarrow> in_round config st \<Longrightarrow>
     \<not> tu_plateIndexS st < length (currentPlates st) \<Longrightarrow> settled config s'"
proof (induction gen config rnd st and gen config rnd st and gen config rnd st
    arbitrary: s' r' and s' r' and s' r'
    rule: startRound_showCurrentPlate_completeRound.induct)
  case (1 gen config rnd st)
  then show ?case
    by (simp add: startRound.simps before_round_enter)
next
  case (2 gen config rnd st)
  show ?case
  proof (cases "tu_plateIndexS st < length (currentPlates st)")
    case True
    then have "s' = st" using "2.prems"(1) by (simp add: showCurrentPlate.simps)
    then show ?thesis using True "2.prems"(2) by (simp add: settled_def)
  next
    case False
    then have "completeRound gen config rnd st = Inr (s', r')"
      using "2.prems"(1) by (simp add: showCurrentPlate.simps)
    then show ?thesis using "2.IH" [OF False] "2.prems"(2) False by blast
  qed
next
  case (3 gen config rnd st)
  note sf = scoreRound_fields [of st]
  show ?case
  proof (cases "shouldContinue config (scoreRound st)")
    case True
    then obtain st1 rnd1 where adj: "adjustParameters rnd (scoreRound st) = Inr (st1, rnd1)"
      and run: "startRound gen config rnd1 st1 = Inr (s', r')"
      using "3.prems"(1) by (auto simp: completeRound.simps split: sum.splits)
    obtain ps where st1: "st1 = (scoreRound st)\<lparr>currentParams := ps\<rparr>"
      using adjustParameters_only_params [OF adj] by blast
    have "\<not> stop_condition config (scoreRound st)"
      using True by (simp add: shouldContinue_iff)
    then have "before_round config st1"
      using "3.prems"(2) sf unfolding st1 before_round_def in_round_def stop_condition_def
      by simp
    then show ?thesis using "3.IH" [OF True adj refl run] by blast
  next
    case False
    then have s': "s' = tu_complete (scoreRound st)"
      using "3.prems"(1) by (simp add: completeRound.simps)
    have "stop_condition config (scoreRound st)"
      using False by (simp add: shouldContinue_iff)
    then have "stopped config s'"
      using "3.prems"(2,3) sf unfolding s' stopped_def in_round_def tu_complete_def stop_condition_def
      by simp
    then show ?thesis by (simp add: settled_def)
  qed
qed

lemma recordResponse_settled:
  assumes "tu_recordResponse gen config rnd response st = Inr (s', r')" and "settled config st"
  shows "settled config s'"
proof (cases "tu_plateIndexS st < length (currentPlates st)")
  case False
  then show ?thesis using assms by (simp add: tu_recordResponse_def)
next
  case True
  then have ir: "in_round config st"
    using assms(2) by (auto simp: settled_def stopped_def)
  define st1 where "st1 = st\<lparr>plateResponses := plateResponses st @
      [\<lparr>tu_plateIndex = tu_plateIndexS st,
        tu_plateType = pd_type (currentPlates st ! tu_plateIndexS st),
        tu_targetValue = tg_value (pd_target (currentPlates st ! tu_plateIndexS st)),
        tu_userResponse = response,
        tu_isCorrect = (response = tg_value (pd_target (currentPlates st ! tu_plateIndexS st)))\<rparr>],
      tu_plateIndexS := tu_plateIndexS st + 1\<rparr>"
  have p1: "in_round config st1"
    using ir by (simp add: st1_def in_round_def)
  have "(\<not> tu_plateIndexS st1 < length (currentPlates st1) \<and>
           completeRound gen config rnd st1 = Inr (s', r')) \<or>
        showCurrentPlate gen config rnd st1 = Inr (s', r')"
    using assms(1) True unfolding tu_recordResponse_def Let_def st1_def [symmetric]
    by (simp split: if_splits)
  then show ?thesis
    using rounds_settled(2,3) p1 by blast
qed

lemma run_settled:
  "tu_run gen config rnd st rs = Inr (s', r') \<Longrightarrow> settled config st \<Longrightarrow> settled config s'"
proof (induction rs arbitrary: rnd st)
  case Nil
  then show ?case by simp
next
  case (Cons response rest)
  then show ?case
    by (auto split: sum.splits dest: recordResponse_settled)
qed

lemma session_settled:
  assumes "tu_session gen config rnd options rs = Inr (s', r')"
  shows "settled config s'"
proof -
  obtain st0 rnd0 where st: "tu_start gen config rnd (tu_init config options) = Inr (st0, rnd0)"
    and run: "tu_run gen config rnd0 st0 rs = Inr (s', r')"
    using assms by (auto simp: tu_session_def split: sum.splits)
  have "startRound gen config rnd ((tu_init config options)\<lparr>tu_isRunning := True\<rparr>)
          = Inr (st0, rnd0)"
    using st by (simp add: tu_start_def tu_init_def Let_def)
  moreover have "before_round config ((tu_init config options)\<lparr>tu_isRunning := True\<rparr>)"
    by (simp add: before_round_def tu_init_def Let_def)
  ultimately have "settled config st0" using rounds_settled(1) by blast
  then show ?thesis using run_settled [OF run] by simp
qed

lemma completeRound_stops:
  assumes "stop_condition config (scoreRound st)"
  shows "completeRound gen config rnd st = Inr (tu_complete (scoreRound st), rnd)"
  using assms by (simp add: completeRound.simps shouldContinue_iff)

lemma unit_rng_tail: "unit_rng r \<Longrightarrow> unit_rng (\<lambda>i. r (Suc i))"
  by (simp add: unit_rng_def)


lemma randomPick_total:
  assumes "xs \<noteq> []" and "unit_rng r"
  shows "\<exists>x r'. randomPick xs r = Inr (x, r') \<and> x \<in> set xs \<and> unit_rng r'"
proof -
  let ?n = "real (length xs)"
  have n: "0 < ?n" using assms(1) by simp
  have u: "0 \<le> r 0" "r 0 < 1" using assms(2) by (simp_all add: unit_rng_def)
  have "0 \<le> r 0 * ?n" using u n by simp
  then have lo: "0 \<le> \<lfloor>r 0 * ?n\<rfloor>" by simp
  have "r 0 * ?n < ?n" using u n by simp
  then have "\<lfloor>r 0 * ?n\<rfloor> < int (length xs)" by (simp add: floor_less_iff)
  then have hi: "nat \<lfloor>r 0 * ?n\<rfloor> < length xs" using lo by linarith
  show ?thesis
    using lo hi unit_rng_tail [OF assms(2)]
    by (simp add: randomPick_def rng_next_def Math_floor_def Let_def)
qed

lemma randomPick_error: "randomPick xs r = Inl e \<Longrightarrow> e = InvalidArgument"
  by (auto simp: randomPick_def rng_next_def Let_def split: if_splits)




lemma adjustParameters_error:
  "adjustParameters rnd st = Inl e \<Longrightarrow> e \<noteq> InvalidState"
  by (auto simp: adjustParameters_def Let_def split: list.splits sum.splits if_splits
      dest: randomPick_error)


lemma rounds_no_invalid_state:
  "startRound gen config rnd st \<noteq> Inl InvalidState"
  "showCurrentPlate gen config rnd st \<noteq> Inl InvalidState"
  "completeRound gen config rnd st \<noteq> Inl InvalidState"
proof (induction gen config rnd st and gen config rnd st and gen config rnd st
    rule: startRound_showCurrentPlate_completeRound.induct)
  case (1 gen config rnd st)
  then show ?case by (simp add: startRound.simps)
next
  case (2 gen config rnd st)
  then show ?case by (simp add: showCurrentPlate.simps)
next
  case (3 gen config rnd st)
  show ?case
  proof (cases "shouldContinue config (scoreRound st)")
    case True
    show ?thesis
    proof (cases "adjustParameters rnd (scoreRound st)")
      case (Inl e)
      then show ?thesis
        using True adjustParameters_error [OF Inl] by (simp add: completeRound.simps)
    next
      case (Inr p)
      obtain st1 rnd1 where p: "p = (st1, rnd1)" by (cases p)
      show ?thesis
        using "3.IH" [OF True Inr [unfolded p] refl] True Inr p
        by (simp add: completeRound.simps)
    qed
  next
    case False
    then show ?thesis by (simp add: completeRound.simps)
  qed
qed





lemma half_next: "rng_next half_rng = (1 / 2, half_rng)"
  by (simp add: rng_next_def half_rng_def)


lemma moderate_fine:
  "generateNeighbors preset_moderate (1 / 2) =
     [preset_moderate\<lparr>hueShift := 45 / 2\<rparr>, preset_moderate\<lparr>hueShift := 55 / 2\<rparr>,
      preset_moderate\<lparr>intensity := 9 / 20\<rparr>, preset_moderate\<lparr>intensity := 11 / 20\<rparr>,
      preset_moderate\<lparr>saturationBoost := 25 / 2\<rparr>, picked_params,
      preset_moderate\<lparr>brightness := - (5 / 2)\<rparr>, preset_moderate\<lparr>brightness := 5 / 2\<rparr>,
      preset_moderate\<lparr>contrast := 11 / 2\<rparr>, preset_moderate\<lparr>contrast := 21 / 2\<rparr>]"
  by (simp add: generateNeighbors_def param_keys_def neighbors_of_def preset_moderate_def
      picked_params_def round2_def Math_round_def Let_def)

lemma moderate_unexplored:
  "rr_params h = preset_moderate \<Longrightarrow>
   unexplored_of [h] (19 / 20) (generateNeighbors preset_moderate 1) = []"
  by (simp add: unexplored_of_def generateNeighbors_def param_keys_def neighbors_of_def
      preset_moderate_def round2_def Math_round_def similarity_def Let_def)

lemma percentage_0_1: "percentage 0 n = 0"
  by (simp add: percentage_def Math_round_def)

lemma pick_half_10:
  "randomPick [a0, a1, a2, a3, a4, a5, a6, a7, a8, a9] half_rng = Inr (a5, half_rng)"
  by (simp add: randomPick_def half_next Math_floor_def)

lemma normalize_picked: "normalizeParams (to_object picked_params) = picked_params"
  by (rule normalizeParams_to_object)
     (simp add: in_ranges_def param_keys_def preset_moderate_def picked_params_def)

lemma completeRound_continues:
  assumes "\<not> stop_condition config (scoreRound st)"
    and "adjustParameters rnd (scoreRound st) = Inr (st1, rnd1)"
    and "tu_plateIndexS (enterRound gen config st1) < length (currentPlates (enterRound gen config st1))"
  shows "completeRound gen config rnd st = Inr (enterRound gen config st1, rnd1)"
  using assms
  by (simp add: completeRound.simps [of gen config rnd st] shouldContinue_iff
      startRound.simps [of gen config rnd1 st1]
      showCurrentPlate.simps [of gen config rnd1 "enterRound gen config st1"])

lemma start_one:
  "tu_start one_plate_gen tu_default_config half_rng (tu_init tu_default_config no_options) =
     Inr (sample_start, half_rng)"
  by (simp add: tu_start_def tu_init_def no_options_def tu_default_config_def sample_start_def
      startRound.simps showCurrentPlate.simps enterRound_def one_plate_gen_def Let_def
      getInitialParams_def presets_def)

lemma record_last:
  assumes "currentPlates st = [pl]" "tu_plateIndexS st = 0" "pd_type pl = ''deutanConfusion''"
    "pd_target pl = \<lparr>tg_type = ''number'', tg_value = ''7''\<rparr>"
  shows "tu_recordResponse gen config rnd ''x'' st =
     completeRound gen config rnd
       (st\<lparr>plateResponses := plateResponses st @ [wrong_response], tu_plateIndexS := 1\<rparr>)"
  using assms by (simp add: tu_recordResponse_def wrong_response_def Let_def)

lemma sample_first_round:
  "tu_recordResponse one_plate_gen tu_default_config half_rng ''x'' sample_start =
     Inr (sample_round2, half_rng)"
proof -
  let ?st1 = "sample_start\<lparr>plateResponses := plateResponses sample_start @ [wrong_response],
      tu_plateIndexS := 1\<rparr>"
  let ?sc = "sample_start
       \<lparr>history := [\<lparr>rr_round = 1, rr_params = preset_moderate, rr_score = 0, rr_correct = 0,
                     rr_total = 1, rr_responses = [wrong_response]\<rparr>],
        noImprovementCount := 1, tu_plateIndexS := 1,
        plateResponses := [wrong_response]\<rparr>"
  have sc: "scoreRound ?st1 = ?sc"
    by (simp add: scoreRound_def sample_start_def tu_init_def no_options_def
        tu_default_config_def wrong_response_def percentage_0_1 Let_def
        getInitialParams_def presets_def)
  have cont: "\<not> stop_condition tu_default_config (scoreRound ?st1)"
    unfolding sc
    by (simp add: stop_condition_def sample_start_def tu_init_def no_options_def
        tu_default_config_def Let_def)
  have adj: "adjustParameters half_rng (scoreRound ?st1) =
      Inr (?sc\<lparr>currentParams := picked_params\<rparr>, half_rng)"
    unfolding sc
    by (simp add: adjustParameters_def sample_start_def tu_init_def no_options_def
        tu_default_config_def Let_def getInitialParams_def presets_def
        moderate_unexplored moderate_fine pick_half_10 normalize_picked)
  have ent: "enterRound one_plate_gen tu_default_config (?sc\<lparr>currentParams := picked_params\<rparr>)
      = sample_round2"
    by (simp add: enterRound_def one_plate_gen_def sample_round2_def sample_start_def
        tu_init_def no_options_def tu_default_config_def Let_def)
  have "completeRound one_plate_gen tu_default_config half_rng ?st1 =
      Inr (enterRound one_plate_gen tu_default_config (?sc\<lparr>currentParams := picked_params\<rparr>),
           half_rng)"
  proof (rule completeRound_continues [OF cont adj])
    show "tu_plateIndexS
           (enterRound one_plate_gen tu_default_config (?sc\<lparr>currentParams := picked_params\<rparr>))
          < length (currentPlates
           (enterRound one_plate_gen tu_default_config (?sc\<lparr>currentParams := picked_params\<rparr>)))"
      unfolding ent by (simp add: sample_round2_def)
  qed
  then have "completeRound one_plate_gen tu_default_config half_rng ?st1 =
      Inr (sample_round2, half_rng)"
    unfolding ent .
  moreover have "tu_recordResponse one_plate_gen tu_default_config half_rng ''x'' sample_start =
      completeRound one_plate_gen tu_default_config half_rng ?st1"
    by (rule record_last [where pl = "sample_plate\<lparr>pd_filterParams := Some preset_moderate\<rparr>"])
      (simp_all add: sample_start_def sample_plate_def tu_init_def Let_def)
  ultimately show ?thesis by simp
qed

lemma sample_second_round:
  "tu_recordResponse one_plate_gen tu_default_config half_rng ''x'' sample_round2 =
     Inr (sample_final, half_rng)"
proof -
  let ?st1 = "sample_round2\<lparr>plateResponses := plateResponses sample_round2 @ [wrong_response],
      tu_plateIndexS := 1\<rparr>"
  have sc: "tu_complete (scoreRound ?st1) = sample_final"
    by (simp add: scoreRound_def sample_round2_def sample_final_def sample_start_def
        tu_init_def no_options_def tu_complete_def
        tu_default_config_def wrong_response_def percentage_0_1 Let_def
        getInitialParams_def presets_def)
  have stop: "stop_condition tu_default_config (scoreRound ?st1)"
    by (simp add: scoreRound_def stop_condition_def sample_round2_def sample_start_def
        tu_init_def no_options_def tu_default_config_def wrong_response_def percentage_0_1
        Let_def getInitialParams_def presets_def)
  have "completeRound one_plate_gen tu_default_config half_rng ?st1 = Inr (sample_final, half_rng)"
    using completeRound_stops [OF stop] unfolding sc by simp
  moreover have "tu_recordResponse one_plate_gen tu_default_config half_rng ''x'' sample_round2 =
      completeRound one_plate_gen tu_default_config half_rng ?st1"
    by (rule record_last [where pl = "sample_plate\<lparr>pd_filterParams := Some picked_params\<rparr>"])
      (simp_all add: sample_round2_def sample_plate_def sample_start_def tu_init_def Let_def)
  ultimately show ?thesis by simp
qed

lemma sample_session:
  "tu_session one_plate_gen tu_default_config half_rng no_options [''x'', ''x''] =
     Inr (sample_final, half_rng)"
  by (simp add: tu_session_def start_one sample_first_round sample_second_round)

lemma sample_final_silent:
  "tu_recordResponse one_plate_gen tu_default_config half_rng ''7'' sample_final =
     Inr (sample_final, half_rng)"
  by (simp add: tu_recordResponse_def sample_final_def sample_round2_def)





lemma trim_7: "trim (toLowerCase '' 7 '') = ''7''" "trim (toLowerCase ''7'') = ''7''"
  by (simp_all add: trim_def toLowerCase_def is_space_def)

lemma started_test_eq:
  "started_test =
     \<lparr>te_isRunning = True, te_currentPlateIndex = 0,
      te_plates = [sample_plate\<lparr>pd_seed := ''seed''\<rparr>], te_responses = [],
      te_filterParams = None, te_mode = ''baseline'', te_stateSeed = ''seed''\<rparr>"
  by (simp add: started_test_def te_start_def te_init_def te_showCurrentPlate_def
      one_plate_sequence_def no_te_options_def te_default_config_def Let_def)

lemma exhausted_reached:
  "te_recordResponse (Some '' 7 '') started_test = Inr exhausted_test"
  unfolding started_test_eq
  by (simp add: te_recordResponse_def exhausted_test_def checkAnswer_def trim_7
      sample_plate_def te_complete_def Let_def)

text \<open>
  Claim C8, as the code has it. \<open>recordResponse\<close> has no failure with InvalidState, in
  the test engine and in the tuning engine. Without a current plate it returns at once
  and leaves the state as it is: in the test engine after the response that completed
  the test, in the tuning engine before \<open>start\<close> and after the run has stopped.
\<close>

theorem C8_recordResponse_silent:
  "(\<not> te_currentPlateIndex ts < length (te_plates ts) \<longrightarrow>
      te_recordResponse response ts = Inr ts) \<and>
   te_recordResponse response ts \<noteq> Inl InvalidState \<and>
   (te_isRunning ts \<and> te_recordResponse response ts = Inr ts' \<and> \<not> te_isRunning ts' \<longrightarrow>
      te_recordResponse response2 ts' = Inr ts') \<and>
   (\<not> tu_plateIndexS st < length (currentPlates st) \<longrightarrow>
      tu_recordResponse gen config rnd answer st = Inr (st, rnd)) \<and>
   tu_recordResponse gen config rnd answer st \<noteq> Inl InvalidState \<and>
   tu_recordResponse gen config rnd answer (tu_init config options) =
     Inr (tu_init config options, rnd) \<and>
   (tu_session gen config rnd0 options responses = Inr (st, rnd1) \<and> \<not> tu_isRunning st \<longrightarrow>
      tu_recordResponse gen config rnd answer st = Inr (st, rnd))"
proof -
  have a: "te_recordResponse response ts \<noteq> Inl InvalidState"
    by (simp add: te_recordResponse_def Let_def)
  have b: "te_recordResponse response2 ts' = Inr ts'"
    if "te_isRunning ts" "te_recordResponse response ts = Inr ts'" "\<not> te_isRunning ts'"
  proof -
    have "\<not> te_currentPlateIndex ts' < length (te_plates ts')"
      using that
      by (auto simp: te_recordResponse_def te_complete_def te_showCurrentPlate_def Let_def
          split: if_splits)
    then show ?thesis by (simp add: te_recordResponse_def)
  qed
  have c: "tu_recordResponse gen config rnd answer st \<noteq> Inl InvalidState"
    using rounds_no_invalid_state(2,3) by (simp add: tu_recordResponse_def Let_def)
  have d: "tu_recordResponse gen config rnd answer (tu_init config options) =
     Inr (tu_init config options, rnd)"
    by (simp add: tu_recordResponse_def tu_init_def Let_def)
  have e: "tu_recordResponse gen config rnd answer st = Inr (st, rnd)"
    if "tu_session gen config rnd0 options responses = Inr (st, rnd1)" "\<not> tu_isRunning st"
  proof -
    have "stopped config st"
      using session_settled [OF that(1)] that(2) by (auto simp: settled_def in_round_def)
    then show ?thesis by (simp add: stopped_def tu_recordResponse_def)
  qed
  show ?thesis
    using a b c d e by (simp add: te_recordResponse_def tu_recordResponse_def)
qed

theorem C8_recordResponse_silent_witness:
  "te_isRunning started_test \<and>
   te_recordResponse (Some '' 7 '') started_test = Inr exhausted_test \<and>
   \<not> te_isRunning exhausted_test \<and>
   \<not> te_currentPlateIndex exhausted_test < length (te_plates exhausted_test) \<and>
   te_recordResponse (Some ''7'') exhausted_test = Inr exhausted_test \<and>
   tu_session one_plate_gen tu_default_config half_rng no_options [''x'', ''x''] =
     Inr (sample_final, half_rng) \<and>
   \<not> tu_isRunning sample_final \<and>
   tu_recordResponse one_plate_gen tu_default_config half_rng ''7'' sample_final =
     Inr (sample_final, half_rng)"
  using C8_recordResponse_silent [of started_test "Some '' 7 ''" exhausted_test "Some ''7''"
      sample_final one_plate_gen tu_default_config half_rng "''7''" no_options half_rng
      "[''x'', ''x'']" half_rng]
  by (simp add: exhausted_reached sample_session sample_final_def)
     (simp add: started_test_eq exhausted_test_def)

text \<open>
  The claim as it was stated fails: a response recorded in the tuning engine before
  \<open>start\<close>, and one recorded in the test engine after its plates are exhausted, return
  normally with the state unchanged.
\<close>

theorem C8_recordResponse_silent_counterexample:
  "\<not> tu_isRunning (tu_init tu_default_config no_options) \<and>
   tu_recordResponse one_plate_gen tu_default_config half_rng ''7''
       (tu_init tu_default_config no_options)
     \<noteq> Inl InvalidState \<and>
   tu_recordResponse one_plate_gen tu_default_config half_rng ''7''
       (tu_init tu_default_config no_options)
     = Inr (tu_init tu_default_config no_options, half_rng) \<and>
   \<not> te_isRunning exhausted_test \<and>
   te_recordResponse (Some ''7'') exhausted_test \<noteq> Inl InvalidState \<and>
   te_recordResponse (Some ''7'') exhausted_test = Inr exhausted_test"
  by (simp add: tu_recordResponse_def tu_init_def te_recordResponse_def exhausted_test_def
      Let_def)

section \<open>Properties of the plate generators\<close>








lemma palette_lists_nonempty:
  "(if t = ''control'' then palettes_control else palettes_deutan) \<noteq> []"
  by (simp add: palettes_control_def palettes_deutan_def)

lemma a_generatePlate_total:
  assumes "\<forall>s. unit_rng (u_createRNG U s)"
  shows "\<exists>plate w'. a_generatePlate U w options = Inr (plate, w')"
proof -
  let ?seed = "case ao_seed options of Some s \<Rightarrow> s | None \<Rightarrow> w_freshSeed w"
  let ?type = "case ao_type options of Some t \<Rightarrow> t | None \<Rightarrow> ''deutan''"
  obtain pal r1 where
    "randomPick (if ?type = ''control'' then palettes_control else palettes_deutan)
       (u_createRNG U ?seed) = Inr (pal, r1)"
    using randomPick_total [OF palette_lists_nonempty, of "u_createRNG U ?seed" ?type] assms
    by blast
  then show ?thesis
    by (simp add: a_generatePlate_def Let_def split: prod.splits)
qed


lemma a_generatePlate_seeded:
  assumes "ao_seed options = Some seed"
  shows "map_sum id fst (a_generatePlate U w1 options) =
         map_sum id fst (a_generatePlate U w2 options)"
    and "map_sum id (w_noisePerm \<circ> snd) (a_generatePlate U w1 options) =
         map_sum id (w_noisePerm \<circ> snd) (a_generatePlate U w2 options)"
  using assms by (simp_all add: a_generatePlate_def Let_def split: sum.splits prod.splits)

lemma m_generatePlate_seeded:
  assumes "mo_seed options = Some seed"
  shows "m_generatePlate U w1 options = m_generatePlate U w2 options"
  using assms by (simp add: m_generatePlate_def)

lemma sample_unit: "\<forall>s. unit_rng (u_createRNG sample_utils s)"
  by (simp add: sample_utils_def sample_createRNG_def unit_rng_def)



lemma gen_tiles_total:
  assumes "mp_target pal \<noteq> []" and "mp_background pal \<noteq> []"
  shows "unit_rng r \<Longrightarrow>
         \<exists>ts. gen_tiles U tileSize pal targetMask fp cells r = Inr ts \<and> length ts = length cells"
proof (induction cells arbitrary: r)
  case Nil
  then show ?case by simp
next
  case (Cons cell rest)
  obtain row col where cell: "cell = (row, col)" by (cases cell)
  let ?set = "if targetMask ! row ! col then mp_target pal else mp_background pal"
  have "?set \<noteq> []" using assms by simp
  then obtain c r0 where pick: "randomPick ?set r = Inr (c, r0)" and u0: "unit_rng r0"
    using randomPick_total [of ?set r] Cons.prems by blast
  have "unit_rng (\<lambda>i. r0 (Suc (Suc (Suc i))))"
    using u0 by (simp add: unit_rng_def)
  then obtain ts where
    "gen_tiles U tileSize pal targetMask fp rest (\<lambda>i. r0 (Suc (Suc (Suc i)))) = Inr ts"
    "length ts = length rest"
    using Cons.IH by blast
  then show ?case
    using pick by (simp add: cell rng_next_def Let_def)
qed

lemma palettes_nonempty:
  "(if t = ''control'' then controlPalettes else deutanConfusion) \<noteq> []"
  by (simp add: controlPalettes_def deutanConfusion_def)

lemma palettes_colors:
  "pal \<in> set (if t = ''control'' then controlPalettes else deutanConfusion) \<Longrightarrow>
   mp_target pal \<noteq> [] \<and> mp_background pal \<noteq> []"
  by (auto simp: controlPalettes_def deutanConfusion_def mk_mpalette_def split: if_splits)

lemma m_generatePlate_total:
  assumes "\<forall>s. unit_rng (u_createRNG U s)"
  shows "\<exists>plate. m_generatePlate U w options = Inr plate \<and>
           length (pd_tiles plate) = pd_tileCount plate * pd_tileCount plate"
proof -
  let ?seed = "case mo_seed options of Some s \<Rightarrow> s | None \<Rightarrow> w_freshSeed w"
  let ?type = "case mo_type options of Some t \<Rightarrow> t | None \<Rightarrow> ''deutanConfusion''"
  let ?tt = "case mo_targetType options of Some t \<Rightarrow> t | None \<Rightarrow> ''number''"
  let ?d = "case mo_difficulty options of Some d \<Rightarrow> d | None \<Rightarrow> ''medium''"
  let ?n = "tileCount_of ?d"
  let ?pals = "if ?type = ''control'' then controlPalettes else deutanConfusion"
  obtain pal r1 where pick: "randomPick ?pals (u_createRNG U ?seed) = Inr (pal, r1)"
    and pin: "pal \<in> set ?pals" and u1: "unit_rng r1"
    using randomPick_total [OF palettes_nonempty, of "u_createRNG U ?seed" ?type] assms by blast
  let ?tg = "if ?tt = ''number'' then
                      map_sum id (\<lambda>(v, r). (\<lparr>tg_type = ''number'', tg_value = v\<rparr>, r))
                        (randomPick targetNumbers r1)
                    else if ?tt = ''letter'' then
                      map_sum id (\<lambda>(v, r). (\<lparr>tg_type = ''letter'', tg_value = v\<rparr>, r))
                        (randomPick targetLetters r1)
                    else
                      map_sum id (\<lambda>(v, r). (\<lparr>tg_type = ''shape'', tg_value = v\<rparr>, r))
                        (randomPick targetShapes r1)"
  have "\<exists>tg r2. ?tg = Inr (tg, r2) \<and> unit_rng r2"
  proof -
    have n: "targetNumbers \<noteq> []" "targetLetters \<noteq> []" "targetShapes \<noteq> []"
      by (simp_all add: targetNumbers_def targetLetters_def targetShapes_def)
    obtain v1 q1 where "randomPick targetNumbers r1 = Inr (v1, q1)" "unit_rng q1"
      using randomPick_total [OF n(1) u1] by blast
    moreover obtain v2 q2 where "randomPick targetLetters r1 = Inr (v2, q2)" "unit_rng q2"
      using randomPick_total [OF n(2) u1] by blast
    moreover obtain v3 q3 where "randomPick targetShapes r1 = Inr (v3, q3)" "unit_rng q3"
      using randomPick_total [OF n(3) u1] by blast
    ultimately show ?thesis by simp
  qed
  then obtain tg r2 where tg: "?tg = Inr (tg, r2)" and u2: "unit_rng r2" by blast
  let ?size = "case mo_size options of Some s \<Rightarrow> s | None \<Rightarrow> 400"
  let ?ts = "Math_floor (?size / real ?n)"
  obtain tiles where tiles:
    "generateTiles U ?n ?ts pal tg r2 (mo_filterParams options) = Inr tiles"
    "length tiles = ?n * ?n"
    using gen_tiles_total [OF conjunct1 [OF palettes_colors [OF pin]]
        conjunct2 [OF palettes_colors [OF pin]] u2]
    unfolding generateTiles_def
    by (fastforce simp: length_concat comp_def sum_list_triv)
  show ?thesis
    unfolding m_generatePlate_def Let_def
    using pick tg tiles by simp
qed

lemma a_generatePlate_unseeded:
  "ao_seed options = None \<Longrightarrow>
   a_generatePlate U w options = a_generatePlate U w (options\<lparr>ao_seed := Some (w_freshSeed w)\<rparr>)"
  by (simp add: a_generatePlate_def)

lemma m_generatePlate_unseeded:
  "mo_seed options = None \<Longrightarrow>
   m_generatePlate U w options = m_generatePlate U w (options\<lparr>mo_seed := Some (w_freshSeed w)\<rparr>)"
  by (simp add: m_generatePlate_def)




text \<open>
  Claim C2. A request that carries its seed is answered by both generators with a result
  that does not depend on the state around the call (the fresh seed, the noise table):
  two calls with the same request return the same plate, which has the same target
  descriptor, the same mask or outlier index and the same base color in every cell, and
  the animated generator leaves the same noise table. With generators in \<open>[0, 1)\<close> both
  calls return a plate.
\<close>

theorem C2_generate_deterministic:
  "(ao_seed aopts = Some seed \<longrightarrow>
      map_sum id fst (a_generatePlate U w1 aopts) = map_sum id fst (a_generatePlate U w2 aopts) \<and>
      map_sum id (w_noisePerm \<circ> snd) (a_generatePlate U w1 aopts) =
        map_sum id (w_noisePerm \<circ> snd) (a_generatePlate U w2 aopts)) \<and>
   (mo_seed mopts = Some seed' \<longrightarrow>
      m_generatePlate U w1 mopts = m_generatePlate U w2 mopts) \<and>
   ((\<forall>s. unit_rng (u_createRNG U s)) \<longrightarrow>
      (\<exists>plate w'. a_generatePlate U w1 aopts = Inr (plate, w')) \<and>
      (\<exists>plate. m_generatePlate U w1 mopts = Inr plate \<and>
         length (pd_tiles plate) = pd_tileCount plate * pd_tileCount plate))"
  using a_generatePlate_seeded [of aopts seed U w1 w2]
    m_generatePlate_seeded [of mopts seed' U w1 w2]
    a_generatePlate_total [of U w1 aopts] m_generatePlate_total [of U w1 mopts]
  by blast

theorem C2_generate_deterministic_witness:
  "ao_seed seeded_aoptions = Some ''abc'' \<and> mo_seed seeded_moptions = Some ''abc'' \<and>
   world1 \<noteq> world2 \<and> (\<forall>s. unit_rng (u_createRNG sample_utils s)) \<and>
   map_sum id fst (a_generatePlate sample_utils world1 seeded_aoptions) =
     map_sum id fst (a_generatePlate sample_utils world2 seeded_aoptions) \<and>
   m_generatePlate sample_utils world1 seeded_moptions =
     m_generatePlate sample_utils world2 seeded_moptions \<and>
   (\<exists>plate. m_generatePlate sample_utils world1 seeded_moptions = Inr plate)"
proof -
  have a: "ao_seed seeded_aoptions = Some ''abc''" by (simp add: seeded_aoptions_def)
  have m: "mo_seed seeded_moptions = Some ''abc''" by (simp add: seeded_moptions_def)
  have w: "world1 \<noteq> world2" by (simp add: world1_def world2_def)
  show ?thesis
    using C2_generate_deterministic [of seeded_aoptions "''abc''" sample_utils world1 world2
        seeded_moptions "''abc''"] a m w sample_unit
    by blast
qed

end
